theory Spec2Isabelle
  imports Complex_Main "HOL-Library.Sublist" "HOL-Library.AList"
begin

section \<open>Python values\<close>

text \<open>
  A Python float is an IEEE double: a finite value, an infinity or NaN. The finite values
  are embedded in the reals, so every double is a value of the model (the model has more
  finite values than there are doubles; the sign of zero is not represented).
\<close>

datatype pyfloat = Finite real | PosInf | NegInf | NaN

text \<open>Exceptions of the source, as values.\<close>

datatype py_error =
    KeyError | IndexError | TypeError | ValueError | OverflowError | RuntimeError string

text \<open>
  The values a raw record holds: what \<open>request.get_json\<close> produces (null, booleans,
  integers, floats, strings, arrays and objects). The contents of arrays and objects are
  never read by the code, so they are left out; any other object a stored snapshot may
  hold is, under \<open>float\<close>, like a string (it is parsed) or like an array (TypeError).
\<close>

datatype pyval = PNone | PBool bool | PInt int | PFloat pyfloat | PStr string | PList | PDict

type_synonym payload = "string \<rightharpoonup> pyval"

text \<open>A dict of floats keyed by feature name, in insertion order.\<close>

type_synonym fdict = "(string \<times> pyfloat) list"

subsection \<open>The builtin \<open>float\<close>\<close>

function bit_length :: "nat \<Rightarrow> nat" where
  "bit_length n = (if n = 0 then 0 else Suc (bit_length (n div 2)))"
  by pat_completeness auto
termination
  by (relation "measure (\<lambda>n. n)") auto

declare bit_length.simps [simp del]

text \<open>
  \<open>float(n)\<close> for an integer: the nearest double, ties to even on the 53-bit
  significand; OverflowError when the rounded magnitude does not fit a double.
\<close>

definition float_of_int :: "int \<Rightarrow> py_error + pyfloat" where
  "float_of_int n =
     (let a = nat \<bar>n\<bar>;
          k = bit_length a - 53;
          q = a div 2 ^ k;
          r = a mod 2 ^ k;
          q' = (if 2 ^ k < 2 * r \<or> (2 * r = 2 ^ k \<and> odd q) then q + 1 else q);
          m = q' * 2 ^ k
      in if 2 ^ 1024 \<le> m then Inl OverflowError
         else Inr (Finite (if n < 0 then - real m else real m)))"

text \<open>
  \<open>float(v)\<close>. Parsing a string is Python's own (decimal and exponent syntax, "nan",
  "inf", surrounding blanks): it is the parameter \<open>parse\<close>, None where Python raises
  ValueError.
\<close>

fun py_float :: "(string \<Rightarrow> pyfloat option) \<Rightarrow> pyval \<Rightarrow> py_error + pyfloat" where
  "py_float parse PNone = Inl TypeError"
| "py_float parse (PBool b) = Inr (Finite (if b then 1 else 0))"
| "py_float parse (PInt n) = float_of_int n"
| "py_float parse (PFloat f) = Inr f"
| "py_float parse (PStr s) = (case parse s of None \<Rightarrow> Inl ValueError | Some f \<Rightarrow> Inr f)"
| "py_float parse PList = Inl TypeError"
| "py_float parse PDict = Inl TypeError"

subsection \<open>Strings\<close>

text \<open>
  \<open>str.lower\<close> is Python's own and knows all of Unicode: the resolver takes it as the
  parameter \<open>lower\<close>. What it does on ASCII strings is \<open>ascii_lower\<close>: the letters
  A to Z become a to z, every other character stays.
\<close>

definition ascii_lower_char :: "char \<Rightarrow> char" where
  "ascii_lower_char c =
     (case map_of (zip ''ABCDEFGHIJKLMNOPQRSTUVWXYZ'' ''abcdefghijklmnopqrstuvwxyz'') c of
        None \<Rightarrow> c | Some d \<Rightarrow> d)"

definition ascii_lower :: "string \<Rightarrow> string" where
  "ascii_lower s = map ascii_lower_char s"

definition is_ascii :: "string \<Rightarrow> bool" where
  "is_ascii s = list_all (\<lambda>c. \<not> digit7 c) s"

definition lower_on_ascii :: "(string \<Rightarrow> string) \<Rightarrow> bool" where
  "lower_on_ascii lower = (\<forall>s. is_ascii s \<longrightarrow> lower s = ascii_lower s)"

text \<open>\<open>sub in s\<close> on strings: \<open>sub\<close> occurs in \<open>s\<close> as a contiguous substring.\<close>

fun str_in :: "string \<Rightarrow> string \<Rightarrow> bool" where
  "str_in sub [] = (sub = [])"
| "str_in sub (c # cs) = (prefix sub (c # cs) \<or> str_in sub cs)"

subsection \<open>Dict and list access\<close>

text \<open>\<open>d[key]\<close> on a dict raises KeyError for a missing key.\<close>

definition getitem :: "('k \<rightharpoonup> 'v) \<Rightarrow> 'k \<Rightarrow> py_error + 'v" where
  "getitem d k = (case d k of None \<Rightarrow> Inl KeyError | Some v \<Rightarrow> Inr v)"

text \<open>\<open>d.get(key, default)\<close>.\<close>

definition dict_get :: "('k \<rightharpoonup> 'v) \<Rightarrow> 'k \<Rightarrow> 'v \<Rightarrow> 'v" where
  "dict_get d k dflt = (case d k of None \<Rightarrow> dflt | Some v \<Rightarrow> v)"

text \<open>\<open>xs[i]\<close> for an index \<open>i \<ge> 0\<close> raises IndexError out of range.\<close>

definition index :: "'a list \<Rightarrow> nat \<Rightarrow> py_error + 'a" where
  "index xs i = (if i < length xs then Inr (xs ! i) else Inl IndexError)"

section \<open>Schema resolver: \<open>build_feature_values\<close>\<close>

text \<open>The candidate keys of a feature name: the \<open>if\<close>/\<open>elif\<close> chain of the source.\<close>

definition candidates :: "(string \<Rightarrow> string) \<Rightarrow> string \<Rightarrow> string list" where
  "candidates lower col =
     (let col_lower = lower col in
      [col, col_lower] @
      (if str_in ''temp'' col_lower then [''temperature'', ''temp'', ''Temperature'']
       else if str_in ''humid'' col_lower then [''humidity'', ''hum'', ''Humidity'']
       else if str_in ''co2'' col_lower then [''co2_ppm'', ''co2'', ''CO2'']
       else if str_in ''co'' col_lower \<and> \<not> str_in ''co2'' col_lower
         then [''co_ppm'', ''co'', ''CO_ppm'', ''CO'']
       else if str_in ''pm'' col_lower then [''pm25'', ''pm_25'', ''PM2_5'']
       else if str_in ''no2'' col_lower then [''no2_ppm'', ''no2'', ''NO2'']
       else if str_in ''aqi'' col_lower then [''aqi'', ''AQI'']
       else []))"

text \<open>
  The search loop: \<open>value = None\<close>, then the value of the first key that is in the
  record, where the loop breaks.
\<close>

fun first_present :: "payload \<Rightarrow> string list \<Rightarrow> py_error + pyval" where
  "first_present payload [] = Inr PNone"
| "first_present payload (key # keys) =
     (if payload key \<noteq> None then getitem payload key else first_present payload keys)"

text \<open>
  One round of the loop over the schema: the value found, else
  \<open>payload.get(col, 0.0)\<close>; then \<open>float(value)\<close>, and 0.0 when that raises.
\<close>

definition feature_value ::
  "(string \<Rightarrow> pyfloat option) \<Rightarrow> (string \<Rightarrow> string) \<Rightarrow> payload \<Rightarrow> string \<Rightarrow>
   py_error + pyfloat" where
  "feature_value parse lower payload col =
     (case first_present payload (candidates lower col) of
        Inl e \<Rightarrow> Inl e
      | Inr found \<Rightarrow>
          (let v = (if found = PNone then dict_get payload col (PFloat (Finite 0)) else found)
           in Inr (case py_float parse v of Inl e \<Rightarrow> Finite 0 | Inr f \<Rightarrow> f)))"

fun build_loop ::
  "(string \<Rightarrow> pyfloat option) \<Rightarrow> (string \<Rightarrow> string) \<Rightarrow> payload \<Rightarrow> string list \<Rightarrow> fdict \<Rightarrow>
   py_error + fdict" where
  "build_loop parse lower payload [] feature_values = Inr feature_values"
| "build_loop parse lower payload (col # cols) feature_values =
     (case feature_value parse lower payload col of
        Inl e \<Rightarrow> Inl e
      | Inr f \<Rightarrow> build_loop parse lower payload cols (AList.update col f feature_values))"

text \<open>\<open>FEATURE_COLS\<close> is loaded from the model bundle: a parameter here.\<close>

definition build_feature_values ::
  "(string \<Rightarrow> pyfloat option) \<Rightarrow> (string \<Rightarrow> string) \<Rightarrow> string list \<Rightarrow> payload \<Rightarrow>
   py_error + fdict" where
  "build_feature_values parse lower FEATURE_COLS payload =
     build_loop parse lower payload FEATURE_COLS []"

section \<open>The process: model bundle and collaborators\<close>

text \<open>
  \<open>predict_proba\<close> of a multi-output classifier returns a list with one array of shape
  (samples, classes) per label; any other model returns something that is neither a list
  nor a tuple.
\<close>

datatype proba = ProbaSeq "pyfloat list list list" | ProbaOther

text \<open>
  What \<open>TreeExplainer.shap_values\<close> returns for an input of shape (samples, features):
  for a single-output estimator a matrix (samples, features); for a classifier, as the
  estimators of the trained bundle are, the attributions of every class, either a list of
  one matrix per class or an array (samples, features, classes). \<open>np.abs\<close> makes a
  3-dimensional array of both.
\<close>

datatype attributions = Matrix "real list list" | Tensor "real list list list"

text \<open>
  The loaded model, as far as the code uses it (\<open>estimators\<close> is the attribute
  \<open>estimators_\<close>). \<open>predict\<close> returns one row of class
  labels per sample. Both calls may raise.
\<close>

record 'e classifier =
  estimators :: "'e list"
  predict_proba :: "pyfloat list list \<Rightarrow> py_error + proba"
  predict :: "pyfloat list list \<Rightarrow> py_error + int list list"

record prediction =
  label :: string
  predicted :: int
  probability :: "pyfloat option"
  reason_features :: "string list"
  advice :: "string list"

text \<open>
  Everything the module reads at load time or calls outside itself:
  \<^item> the bundle: \<open>model\<close>, \<open>FEATURE_COLS\<close>, \<open>LABEL_COLS\<close>;
  \<^item> \<open>shap_values est x\<close>: \<open>shap.TreeExplainer(est).shap_values(x)\<close>, a function of
    its arguments, returning the attributions or raising;
  \<^item> \<open>float_parse\<close>: \<open>float\<close> on a string; \<open>float_str\<close>: \<open>str\<close> on a float;
    \<open>str_lower\<close>: \<open>str.lower\<close>;
  \<^item> the three \<open>ALERT_*\<close> environment variables and the SMTP session
    (None: the message was sent);
  \<^item> \<open>document_set\<close>: the Firestore write of features and predictions, returning the
    new document's id, or raising.
\<close>

record 'e env =
  model :: "'e classifier"
  FEATURE_COLS :: "string list"
  LABEL_COLS :: "string list"
  shap_values :: "'e \<Rightarrow> pyfloat list list \<Rightarrow> py_error + attributions"
  float_parse :: "string \<Rightarrow> pyfloat option"
  str_lower :: "string \<Rightarrow> string"
  float_str :: "pyfloat \<Rightarrow> string"
  EMAIL_SENDER :: "string option"
  EMAIL_PASSWORD :: "string option"
  ALERT_TO_EMAIL :: "string option"
  smtp_send :: "string \<times> string \<times> string \<times> string \<Rightarrow> py_error option"
  document_set :: "fdict \<times> prediction list \<Rightarrow> py_error + string"

section \<open>Advice templates\<close>

record template =
  title :: string
  template_advice :: "string list"

definition ADVICE_TEMPLATES :: "string \<rightharpoonup> template" where
  "ADVICE_TEMPLATES = map_of
     [(''asthma'',
        \<lparr>title = ''Asthma exacerbation risk'',
         template_advice =
           [''Avoid outdoor strenuous exercise.'',
            ''Keep windows closed; increase indoor filtration if possible.'',
            ''Use prescribed inhaler as advised; consult physician if symptoms worsen.'']\<rparr>),
      (''copd'',
        \<lparr>title = ''COPD exacerbation risk'',
         template_advice =
           [''Avoid outdoor exposure; use face mask outdoors.'',
            ''Ensure medication adherence; seek medical advice for breathing difficulty.'']\<rparr>),
      (''resp_inf'',
        \<lparr>title = ''Respiratory infection risk'',
         template_advice =
           [''Reduce exposure to polluted air; maintain hydration and hygiene.'',
            ''If you have symptoms, consult a doctor.'']\<rparr>),
      (''cardio'',
        \<lparr>title = ''Cardiovascular risk'',
         template_advice =
           [''Avoid heavy exertion outdoors; those with heart disease should be cautious.'',
            ''Consult your cardiologist if you have chest pain or unusual breathlessness.'']\<rparr>),
      (''allergy'',
        \<lparr>title = ''Allergic reaction risk'',
         template_advice =
           [''Consider antihistamines if you have allergies; keep indoor air clean.'',
            ''Avoid outdoor activities during high pollutant episodes.'']\<rparr>)]"

text \<open>
  \<open>ADVICE_TEMPLATES.get(label, {}).get("advice", [])\<close>: the empty dict for a missing
  label has no "advice", so the second default applies.
\<close>

definition advice_for :: "string \<Rightarrow> string list" where
  "advice_for lbl = (case ADVICE_TEMPLATES lbl of None \<Rightarrow> [] | Some t \<Rightarrow> template_advice t)"

section \<open>Explainer: \<open>explain_and_generate_advice\<close>\<close>

definition np_abs :: "real list list \<Rightarrow> real list list" where
  "np_abs a = map (map abs) a"

text \<open>
  \<open>a.mean(axis=0)\<close> of a matrix: the column means. (With no rows numpy yields NaNs;
  the input here has one row.)
\<close>

fun mean_axis0 :: "real list list \<Rightarrow> real list" where
  "mean_axis0 [] = []"
| "mean_axis0 (r # rs) = map (\<lambda>s. s / real (length (r # rs))) (foldl (map2 (+)) r rs)"

text \<open>
  \<open>np.argsort(v)\<close>: the indices of \<open>v\<close> in ascending order of value. Equal values are
  kept in index order here; numpy's default sort does not promise an order among them.
\<close>

definition argsort :: "real list \<Rightarrow> nat list" where
  "argsort v = sort_key (\<lambda>i. v ! i) [0..<length v]"

text \<open>
  \<open>a.mean(axis=0)\<close> of a 3-dimensional array: the mean of its matrices. (With no
  matrices numpy yields NaNs; the attributions hold a class or a sample at least.)
\<close>

fun mean_axis0_3 :: "real list list list \<Rightarrow> real list list" where
  "mean_axis0_3 [] = []"
| "mean_axis0_3 (m # ms) =
     map (map (\<lambda>s. s / real (length (m # ms)))) (foldl (map2 (map2 (+))) m ms)"

text \<open>\<open>a[-2:][::-1]\<close>: the last two entries along the first axis, last first.\<close>

definition last_two_reversed :: "'a list \<Rightarrow> 'a list" where
  "last_two_reversed xs = rev (drop (length xs - 2) xs)"

text \<open>
  \<open>np.argsort(np.abs(shap_values).mean(axis=0))[-2:][::-1]\<close>. \<open>argsort\<close> sorts along
  the last axis: of a matrix of attributions it makes one vector of feature indices, of
  a 3-dimensional array a matrix of indices, whose rows the slices then take.
\<close>

definition matrix_top_idx :: "real list list \<Rightarrow> nat list" where
  "matrix_top_idx sv = last_two_reversed (argsort (mean_axis0 (np_abs sv)))"

definition tensor_top_idx :: "real list list list \<Rightarrow> nat list list" where
  "tensor_top_idx sv = last_two_reversed (map argsort (mean_axis0_3 (map np_abs sv)))"

text \<open>
  What the loop over \<open>top_idx\<close> binds \<open>i\<close> to: an integer when \<open>top_idx\<close> is a
  vector, an array of integers when it is a matrix.
\<close>

datatype np_index = IntIndex nat | ArrayIndex "nat list"

definition top_idx :: "attributions \<Rightarrow> np_index list" where
  "top_idx sv =
     (case sv of
        Matrix m \<Rightarrow> map IntIndex (matrix_top_idx m)
      | Tensor t \<Rightarrow> map ArrayIndex (tensor_top_idx t))"

text \<open>
  \<open>FEATURE_COLS[i]\<close> on the Python list: an integer index is looked up, an array of
  integers raises TypeError (only integer scalar arrays can be converted to an index).
\<close>

definition list_index :: "'a list \<Rightarrow> np_index \<Rightarrow> py_error + 'a" where
  "list_index xs i = (case i of IntIndex n \<Rightarrow> index xs n | ArrayIndex ns \<Rightarrow> Inl TypeError)"

text \<open>\<open>[FEATURE_COLS[i] for i in top_idx]\<close>.\<close>

fun index_all :: "'a list \<Rightarrow> np_index list \<Rightarrow> py_error + 'a list" where
  "index_all xs [] = Inr []"
| "index_all xs (i # is) =
     (case list_index xs i of
        Inl e \<Rightarrow> Inl e
      | Inr v \<Rightarrow> (case index_all xs is of Inl e \<Rightarrow> Inl e | Inr vs \<Rightarrow> Inr (v # vs)))"

text \<open>The body of the \<open>try\<close>.\<close>

definition shap_top_features :: "'e env \<Rightarrow> pyfloat list list \<Rightarrow> py_error + string list" where
  "shap_top_features w x =
     (case index (estimators (model w)) 0 of
        Inl e \<Rightarrow> Inl e
      | Inr est \<Rightarrow>
          (case shap_values w est x of
             Inl e \<Rightarrow> Inl e
           | Inr sv \<Rightarrow> index_all (FEATURE_COLS w) (top_idx sv)))"

definition explain_and_generate_advice :: "'e env \<Rightarrow> pyfloat list list \<Rightarrow> string list" where
  "explain_and_generate_advice w x =
     (case shap_top_features w x of
        Inl e \<Rightarrow> take 2 (FEATURE_COLS w)
      | Inr top_features \<Rightarrow> top_features)"

section \<open>Risk scorer: \<open>run_prediction\<close>\<close>

text \<open>
  The literal \<open>0.3\<close> is the double nearest to 3/10, which is
  5404319552844595 / 2^54.
\<close>

definition THRESHOLD :: real where
  "THRESHOLD = 5404319552844595 / 18014398509481984"

text \<open>\<open>p > c\<close> for a float \<open>p\<close> and a finite \<open>c\<close>: false for NaN.\<close>

fun float_gt :: "pyfloat \<Rightarrow> real \<Rightarrow> bool" where
  "float_gt (Finite r) c = (c < r)"
| "float_gt PosInf c = True"
| "float_gt NegInf c = False"
| "float_gt NaN c = False"

text \<open>
  The probability of label \<open>i\<close>: \<open>float(proba[i][0][1])\<close> when \<open>proba\<close> is a list
  longer than \<open>i\<close>, None when it is not or the indexing raises.
\<close>

definition probability_of :: "proba \<Rightarrow> nat \<Rightarrow> pyfloat option" where
  "probability_of pr i =
     (case pr of
        ProbaOther \<Rightarrow> None
      | ProbaSeq ps \<Rightarrow>
          if i < length ps then
            (case index (ps ! i) 0 of
               Inl e \<Rightarrow> None
             | Inr row \<Rightarrow> (case index row 1 of Inl e \<Rightarrow> None | Inr v \<Rightarrow> Some v))
          else None)"

text \<open>The trigger: \<open>preds[i] == 1 or (p is not None and p > 0.3)\<close>.\<close>

definition triggered :: "int \<Rightarrow> pyfloat option \<Rightarrow> bool" where
  "triggered pred p = (pred = 1 \<or> (case p of None \<Rightarrow> False | Some f \<Rightarrow> float_gt f THRESHOLD))"

fun predict_loop ::
  "'e env \<Rightarrow> pyfloat list list \<Rightarrow> proba \<Rightarrow> int list \<Rightarrow> (nat \<times> string) list \<Rightarrow>
   prediction list \<Rightarrow> py_error + prediction list" where
  "predict_loop w x pr preds [] result = Inr result"
| "predict_loop w x pr preds ((i, lbl) # rest) result =
     (let p = probability_of pr i in
      case index preds i of
        Inl e \<Rightarrow> Inl e
      | Inr pred \<Rightarrow>
          if triggered pred p then
            predict_loop w x pr preds rest
              (result @
                [\<lparr>label = lbl, predicted = pred, probability = p,
                  reason_features = explain_and_generate_advice w x,
                  advice = advice_for lbl\<rparr>])
          else predict_loop w x pr preds rest result)"

text \<open>Returns the list under "predictions"; "status" is always "ok".\<close>

definition run_prediction :: "'e env \<Rightarrow> pyfloat list list \<Rightarrow> py_error + prediction list" where
  "run_prediction w x =
     (case predict_proba (model w) x of
        Inl e \<Rightarrow> Inl e
      | Inr pr \<Rightarrow>
          (case predict (model w) x of
             Inl e \<Rightarrow> Inl e
           | Inr rows \<Rightarrow>
               (case index rows 0 of
                  Inl e \<Rightarrow> Inl e
                | Inr preds \<Rightarrow> predict_loop w x pr preds (enumerate 0 (LABEL_COLS w)) [])))"

section \<open>Alert composition and dispatch\<close>

subsection \<open>The format \<open>.2f\<close>\<close>

text \<open>
  Python prints the exact value of the double, rounded to two decimals, ties to even.
\<close>

definition round_half_even :: "real \<Rightarrow> int" where
  "round_half_even x =
     (let f = \<lfloor>x\<rfloor>; d = x - of_int f
      in if d < 1 / 2 then f else if 1 / 2 < d then f + 1 else if even f then f else f + 1)"

function digits :: "nat \<Rightarrow> string" where
  "digits n =
     (if n < 10 then [''0123456789'' ! n]
      else digits (n div 10) @ [''0123456789'' ! (n mod 10)])"
  by pat_completeness auto
termination
  by (relation "measure (\<lambda>n. n)") auto

declare digits.simps [simp del]

definition format_2f :: "pyfloat \<Rightarrow> string" where
  "format_2f f =
     (case f of
        NaN \<Rightarrow> ''nan''
      | PosInf \<Rightarrow> ''inf''
      | NegInf \<Rightarrow> ''-inf''
      | Finite r \<Rightarrow>
          (let n = nat (round_half_even (\<bar>r\<bar> * 100))
           in (if r < 0 then ''-'' else []) @ digits (n div 100) @ ''.'' @
              digits (n mod 100 div 10) @ digits (n mod 10)))"

subsection \<open>The body of the alert\<close>

text \<open>\<open>f"{prob:.2f}" if isinstance(prob, float) else "N/A"\<close>.\<close>

definition prob_str :: "pyfloat option \<Rightarrow> string" where
  "prob_str prob = (case prob of Some f \<Rightarrow> format_2f f | None \<Rightarrow> ''N/A'')"

definition alert_line :: "prediction \<Rightarrow> string" where
  "alert_line p = ''- '' @ label p @ '' (probability: '' @ prob_str (probability p) @ '')''"

fun join :: "string \<Rightarrow> string list \<Rightarrow> string" where
  "join sep [] = []"
| "join sep [s] = s"
| "join sep (s # t # ts) = s @ sep @ join sep (t # ts)"

definition newline :: string where
  "newline = [CHR 0x0A]"

definition alert_lines :: "prediction list \<Rightarrow> string list" where
  "alert_lines predictions = map alert_line predictions"

definition alert_body :: "'e env \<Rightarrow> prediction list \<Rightarrow> fdict \<Rightarrow> string" where
  "alert_body w predictions feature_values =
     ''The air-quality ML model detected potential health risks:'' @ newline @ newline @
     join newline (alert_lines predictions) @
     newline @ newline @ ''Features:'' @ newline @
     join newline (map (\<lambda>(k, v). k @ '': '' @ float_str w v) feature_values)"

subsection \<open>\<open>send_alert_email\<close>\<close>

text \<open>What the call did: it returns nothing, and never raises on an SMTP error.\<close>

datatype send_outcome = NotConfigured | Sent | SendFailed py_error

definition truthy :: "string option \<Rightarrow> bool" where
  "truthy s = (case s of None \<Rightarrow> False | Some t \<Rightarrow> t \<noteq> [])"

definition send_alert_email ::
  "'e env \<Rightarrow> string \<Rightarrow> string \<Rightarrow> string option \<Rightarrow> send_outcome" where
  "send_alert_email w subject body to_email =
     (let sender = EMAIL_SENDER w;
          password = EMAIL_PASSWORD w;
          recipient = (if truthy to_email then to_email else ALERT_TO_EMAIL w)
      in if \<not> (truthy sender \<and> truthy password \<and> truthy recipient) then NotConfigured
         else (case (sender, recipient) of
                 (Some from_addr, Some to_addr) \<Rightarrow>
                   (case smtp_send w (subject, body, from_addr, to_addr) of
                      None \<Rightarrow> Sent
                    | Some e \<Rightarrow> SendFailed e)
               | _ \<Rightarrow> NotConfigured))"

section \<open>Device ingestion: \<open>ingest_from_device\<close>\<close>

text \<open>
  The JSON envelope: the success envelope carries the document id, the predictions and
  the features; the error envelope carries the exception (its \<open>str\<close> is the message).
\<close>

datatype envelope = OkEnvelope string "prediction list" fdict | ErrorEnvelope py_error

text \<open>
  What a request did: the envelope, the HTTP status, and the call of
  \<open>send_alert_email\<close> (subject, body and what it did), None when it was not called.
\<close>

record outcome =
  response :: envelope
  http_status :: nat
  alert :: "(string \<times> string \<times> send_outcome) option"

text \<open>\<open>[feature_values[c] for c in FEATURE_COLS]\<close>.\<close>

fun feature_row :: "fdict \<Rightarrow> string list \<Rightarrow> py_error + pyfloat list" where
  "feature_row feature_values [] = Inr []"
| "feature_row feature_values (c # cs) =
     (case getitem (map_of feature_values) c of
        Inl e \<Rightarrow> Inl e
      | Inr v \<Rightarrow> (case feature_row feature_values cs of Inl e \<Rightarrow> Inl e | Inr vs \<Rightarrow> Inr (v # vs)))"

text \<open>
  The body of the \<open>try\<close>, for a request whose JSON is an object: steps 1 to 4 of the
  docstring. An exception leaves at the step that raises it.
\<close>

definition ingest_steps ::
  "'e env \<Rightarrow> payload \<Rightarrow>
   py_error + (string \<times> prediction list \<times> fdict \<times> (string \<times> string \<times> send_outcome) option)" where
  "ingest_steps w payload =
     (case build_feature_values (float_parse w) (str_lower w) (FEATURE_COLS w) payload of
        Inl e \<Rightarrow> Inl e
      | Inr feature_values \<Rightarrow>
     (case feature_row feature_values (FEATURE_COLS w) of
        Inl e \<Rightarrow> Inl e
      | Inr row \<Rightarrow>
     (case run_prediction w [row] of
        Inl e \<Rightarrow> Inl e
      | Inr predictions \<Rightarrow>
     (case document_set w (feature_values, predictions) of
        Inl e \<Rightarrow> Inl e
      | Inr doc_id \<Rightarrow>
          (let sent =
             (if predictions \<noteq> [] then
                (let body = alert_body w predictions feature_values
                 in Some (''Air Quality Health Risk Alert'', body,
                      send_alert_email w ''Air Quality Health Risk Alert'' body None))
              else None)
           in Inr (doc_id, predictions, feature_values, sent))))))"

definition ingest_from_device :: "'e env \<Rightarrow> payload \<Rightarrow> outcome" where
  "ingest_from_device w payload =
     (case ingest_steps w payload of
        Inl e \<Rightarrow> \<lparr>response = ErrorEnvelope e, http_status = 500, alert = None\<rparr>
      | Inr (doc_id, predictions, feature_values, sent) \<Rightarrow>
          \<lparr>response = OkEnvelope doc_id predictions feature_values, http_status = 200,
           alert = sent\<rparr>)"

section \<open>The resolver as the specification words it\<close>

text \<open>
  The alias table in priority order: the first entry whose pattern occurs in the
  lower-cased feature name gives the aliases; no entry, no alias.
\<close>

definition alias_table :: "(string \<times> string list) list" where
  "alias_table =
     [(''temp'', [''temperature'', ''temp'', ''Temperature'']),
      (''humid'', [''humidity'', ''hum'', ''Humidity'']),
      (''co2'', [''co2_ppm'', ''co2'', ''CO2'']),
      (''co'', [''co_ppm'', ''co'', ''CO_ppm'', ''CO'']),
      (''pm'', [''pm25'', ''pm_25'', ''PM2_5'']),
      (''no2'', [''no2_ppm'', ''no2'', ''NO2'']),
      (''aqi'', [''aqi'', ''AQI''])]"

definition spec_candidates :: "(string \<Rightarrow> string) \<Rightarrow> string \<Rightarrow> string list" where
  "spec_candidates lower col =
     [col, lower col] @
     (case List.find (\<lambda>(pat, aliases). str_in pat (lower col)) alias_table of
        None \<Rightarrow> []
      | Some (pat, aliases) \<Rightarrow> aliases)"

text \<open>
  The first candidate key present in the record wins; its value is coerced to a float;
  0.0 when no candidate is present or the coercion fails.
\<close>

definition spec_resolve ::
  "(string \<Rightarrow> pyfloat option) \<Rightarrow> (string \<Rightarrow> string) \<Rightarrow> payload \<Rightarrow> string \<Rightarrow> pyfloat" where
  "spec_resolve parse lower payload col =
     (case List.find (\<lambda>key. payload key \<noteq> None) (spec_candidates lower col) of
        None \<Rightarrow> Finite 0
      | Some key \<Rightarrow>
          (case payload key of
             None \<Rightarrow> Finite 0
           | Some v \<Rightarrow> (case py_float parse v of Inl e \<Rightarrow> Finite 0 | Inr f \<Rightarrow> f)))"

section \<open>The scorer's output, entry by entry\<close>

text \<open>The Prediction the loop appends for the label at position \<open>i\<close>.\<close>

definition prediction_for ::
  "'e env \<Rightarrow> pyfloat list list \<Rightarrow> proba \<Rightarrow> int list \<Rightarrow> nat \<times> string \<Rightarrow> prediction" where
  "prediction_for w x pr preds il =
     \<lparr>label = snd il, predicted = preds ! fst il, probability = probability_of pr (fst il),
      reason_features = explain_and_generate_advice w x, advice = advice_for (snd il)\<rparr>"

definition active :: "proba \<Rightarrow> int list \<Rightarrow> nat \<times> string \<Rightarrow> bool" where
  "active pr preds il = triggered (preds ! fst il) (probability_of pr (fst il))"

section \<open>Finite doubles\<close>

text \<open>
  The finite doubles are the reals \<open>\<plusminus> m * 2^k / 2^1074\<close> with a significand
  \<open>m < 2^53\<close> and \<open>k \<le> 2045\<close> (subnormals have \<open>k = 0\<close>).
\<close>

definition is_double :: "real \<Rightarrow> bool" where
  "is_double r = (\<exists>m k. m < (2::nat) ^ 53 \<and> k \<le> (2045::nat) \<and> \<bar>r\<bar> = real (m * 2 ^ k) / 2 ^ 1074)"

section \<open>Concrete processes\<close>

definition schema3 :: "string list" where
  "schema3 = [''temperature_c'', ''co2_ppm'', ''pm2_5_ugm3'']"

definition record3 :: payload where
  "record3 = [''temperature'' \<mapsto> PInt 35, ''co2_ppm'' \<mapsto> PInt 1200, ''pm25'' \<mapsto> PInt 80]"

text \<open>A schema with capital letters, and a record that answers it through aliases.\<close>

definition schema_mixed :: "string list" where
  "schema_mixed = [''Temperature_C'', ''CO2_PPM'', ''Overall_AQI'']"

definition record_mixed :: payload where
  "record_mixed =
     [''temperature_c'' \<mapsto> PFloat (Finite (43 / 2)), ''co2'' \<mapsto> PInt 400, ''AQI'' \<mapsto> PInt 42]"

definition features_mixed :: fdict where
  "features_mixed =
     [(''Temperature_C'', Finite (43 / 2)), (''CO2_PPM'', Finite 400), (''Overall_AQI'', Finite 42)]"

text \<open>
  A record whose temperature is not a number and whose CO2 reading is null; it has no
  particulate reading.
\<close>

definition record_bad :: payload where
  "record_bad = [''temperature'' \<mapsto> PStr ''hot'', ''co2'' \<mapsto> PNone]"

text \<open>
  A model over four labels: the first and the last predicted 1, the second with
  probability 0.5, the third with probability 0.125; the last label's estimator knows
  one class only, so its probability cannot be read.
\<close>

definition clf0 :: "nat classifier" where
  "clf0 =
     \<lparr>estimators = [0, 1, 2, 3],
      predict_proba = (\<lambda>x. Inr (ProbaSeq
        [[[Finite (1 / 4), Finite (3 / 4)]],
         [[Finite (1 / 2), Finite (1 / 2)]],
         [[Finite (7 / 8), Finite (1 / 8)]],
         [[Finite 1]]])),
      predict = (\<lambda>x. Inr [[1, 0, 0, 1]])\<rparr>"

definition env0 :: "nat env" where
  "env0 =
     \<lparr>model = clf0,
      FEATURE_COLS = schema3,
      LABEL_COLS = [''asthma'', ''copd'', ''resp_inf'', ''unknown_label''],
      shap_values = (\<lambda>est x. Inr (Matrix [[1 / 2, - 2, 1]])),
      float_parse = (\<lambda>s. None),
      str_lower = ascii_lower,
      float_str = (\<lambda>f. ''?''),
      EMAIL_SENDER = Some ''from@example.org'',
      EMAIL_PASSWORD = Some ''secret'',
      ALERT_TO_EMAIL = Some ''to@example.org'',
      smtp_send = (\<lambda>m. None),
      document_set = (\<lambda>d. Inr ''doc1'')\<rparr>"

definition env_store_down :: "nat env" where
  "env_store_down = env0\<lparr>document_set := (\<lambda>d. Inl (RuntimeError ''store unavailable''))\<rparr>"

definition env_smtp_down :: "nat env" where
  "env_smtp_down = env0\<lparr>smtp_send := (\<lambda>m. Some (RuntimeError ''smtp unavailable''))\<rparr>"

definition env_no_shap :: "nat env" where
  "env_no_shap = env0\<lparr>shap_values := (\<lambda>est x. Inl (RuntimeError ''unsupported model''))\<rparr>"

text \<open>
  The attributions of a classifier with two classes, as the estimators of the trained
  bundle are: one matrix per class, the second the negative of the first. Their
  magnitudes are those of the matrix of \<open>env0\<close>.
\<close>

definition forest_attributions :: attributions where
  "forest_attributions = Tensor [[[1 / 2, - 2, 1]], [[- (1 / 2), 2, - 1]]]"

definition env_forest :: "nat env" where
  "env_forest = env0\<lparr>shap_values := (\<lambda>est x. Inr forest_attributions)\<rparr>"

text \<open>A model that predicts no label and exposes no probabilities.\<close>

definition env_quiet :: "nat env" where
  "env_quiet =
     env0\<lparr>model := \<lparr>estimators = [0, 1, 2, 3],
                     predict_proba = (\<lambda>x. Inr ProbaOther),
                     predict = (\<lambda>x. Inr [[0, 0, 0, 0]])\<rparr>\<rparr>"

text \<open>The predictions of \<open>env0\<close> on \<open>record3\<close>.\<close>

definition predictions0 :: "prediction list" where
  "predictions0 =
     [\<lparr>label = ''asthma'', predicted = 1, probability = Some (Finite (3 / 4)),
       reason_features = [''co2_ppm'', ''pm2_5_ugm3''], advice = advice_for ''asthma''\<rparr>,
      \<lparr>label = ''copd'', predicted = 0, probability = Some (Finite (1 / 2)),
       reason_features = [''co2_ppm'', ''pm2_5_ugm3''], advice = advice_for ''copd''\<rparr>,
      \<lparr>label = ''unknown_label'', predicted = 1, probability = None,
       reason_features = [''co2_ppm'', ''pm2_5_ugm3''], advice = []\<rparr>]"

text \<open>The input array of one sample that \<open>record3\<close> resolves to.\<close>

definition vector0 :: "pyfloat list list" where
  "vector0 = [[Finite 35, Finite 1200, Finite 80]]"

definition features0 :: fdict where
  "features0 =
     [(''temperature_c'', Finite 35), (''co2_ppm'', Finite 1200), (''pm2_5_ugm3'', Finite 80)]"

section \<open>Integer to float\<close>

lemma bit_length_le: "a < 2 ^ k \<Longrightarrow> bit_length a \<le> k"
proof (induction k arbitrary: a)
  case 0
  then show ?case by (simp add: bit_length.simps)
next
  case (Suc k)
  show ?case
  proof (cases "a = 0")
    case True
    then show ?thesis by (simp add: bit_length.simps)
  next
    case False
    from Suc.prems have "a div 2 < 2 ^ k" by simp
    then have "bit_length (a div 2) \<le> k" by (rule Suc.IH)
    with False show ?thesis by (subst bit_length.simps) simp
  qed
qed

lemma float_of_int_small:
  assumes "\<bar>n\<bar> < 2 ^ 53"
  shows "float_of_int n = Inr (Finite (real_of_int n))"
proof -
  have a: "nat \<bar>n\<bar> < 2 ^ 53" using assms by (simp add: nat_less_iff)
  then have k: "bit_length (nat \<bar>n\<bar>) - 53 = 0" using bit_length_le [OF a] by simp
  have "(2::nat) ^ 53 < 2 ^ 1024" by (rule power_strict_increasing) simp_all
  with a have m: "\<not> (2::nat) ^ 1024 \<le> nat \<bar>n\<bar>" by linarith
  show ?thesis
    unfolding float_of_int_def Let_def k using m by auto
qed

section \<open>Lower-casing\<close>

lemma lower_on_ascii_ascii_lower: "lower_on_ascii ascii_lower"
  by (simp add: lower_on_ascii_def)

lemma candidates_ascii:
  "lower_on_ascii lower \<Longrightarrow> is_ascii col \<Longrightarrow> candidates lower col = candidates ascii_lower col"
  by (simp add: candidates_def lower_on_ascii_def)

lemma build_loop_ascii:
  "lower_on_ascii lower \<Longrightarrow> list_all is_ascii cols \<Longrightarrow>
   build_loop parse lower payload cols acc = build_loop parse ascii_lower payload cols acc"
  by (induction cols arbitrary: acc)
    (simp_all add: feature_value_def candidates_ascii cong: sum.case_cong)

lemma build_feature_values_ascii:
  "lower_on_ascii lower \<Longrightarrow> list_all is_ascii cols \<Longrightarrow>
   build_feature_values parse lower cols payload =
   build_feature_values parse ascii_lower cols payload"
  by (simp add: build_feature_values_def build_loop_ascii)

lemma is_ascii_schemas: "list_all is_ascii schema3" "list_all is_ascii schema_mixed"
  by (simp_all add: schema3_def schema_mixed_def is_ascii_def)

section \<open>The resolver computes what the table says\<close>

lemma candidates_spec: "candidates lower col = spec_candidates lower col"
  by (simp add: candidates_def spec_candidates_def alias_table_def Let_def)

lemma first_present_find:
  "first_present payload keys =
     Inr (case List.find (\<lambda>key. payload key \<noteq> None) keys of
            None \<Rightarrow> PNone
          | Some key \<Rightarrow> (case payload key of None \<Rightarrow> PNone | Some v \<Rightarrow> v))"
  by (induction keys) (auto simp: getitem_def)

lemma find_first_candidate:
  "List.find (\<lambda>key. payload key \<noteq> None) (spec_candidates lower col) = Some key \<Longrightarrow>
   payload col \<noteq> None \<Longrightarrow> key = col"
  by (simp add: spec_candidates_def)

lemma feature_value_spec:
  "feature_value parse lower payload col = Inr (spec_resolve parse lower payload col)"
proof (cases "List.find (\<lambda>key. payload key \<noteq> None) (spec_candidates lower col)")
  case None
  then have "payload col = None" by (simp add: spec_candidates_def split: if_splits)
  with None show ?thesis
    by (simp add: feature_value_def spec_resolve_def first_present_find candidates_spec
        dict_get_def)
next
  case (Some key)
  then have "payload key \<noteq> None" by (auto simp: find_Some_iff)
  then obtain v where v: "payload key = Some v" by auto
  show ?thesis
  proof (cases "v = PNone")
    case False
    with Some v show ?thesis
      by (simp add: feature_value_def spec_resolve_def first_present_find candidates_spec)
  next
    case True
    have "dict_get payload col (PFloat (Finite 0)) = PNone \<or>
          dict_get payload col (PFloat (Finite 0)) = PFloat (Finite 0)"
    proof (cases "payload col")
      case None
      then show ?thesis by (simp add: dict_get_def)
    next
      case (Some u)
      then have "key = col" using find_first_candidate [OF \<open>List.find _ _ = Some key\<close>] by simp
      with v True Some show ?thesis by (simp add: dict_get_def)
    qed
    with Some v True show ?thesis
      by (auto simp: feature_value_def spec_resolve_def first_present_find candidates_spec)
  qed
qed

lemma build_loop_spec:
  "\<exists>fv. build_loop parse lower payload cols acc = Inr fv \<and>
        map_of fv = (\<lambda>c. if c \<in> set cols then Some (spec_resolve parse lower payload c) else map_of acc c) \<and>
        fst ` set fv = fst ` set acc \<union> set cols \<and>
        (distinct (map fst acc) \<longrightarrow> distinct (map fst fv))"
proof (induction cols arbitrary: acc)
  case Nil
  then show ?case by simp
next
  case (Cons col cols)
  obtain fv where fv: "build_loop parse lower payload cols (AList.update col (spec_resolve parse lower payload col) acc) = Inr fv"
    and m: "map_of fv = (\<lambda>c. if c \<in> set cols then Some (spec_resolve parse lower payload c)
                else map_of (AList.update col (spec_resolve parse lower payload col) acc) c)"
    and d: "fst ` set fv = fst ` set (AList.update col (spec_resolve parse lower payload col) acc) \<union> set cols"
    and dd: "distinct (map fst (AList.update col (spec_resolve parse lower payload col) acc)) \<longrightarrow> distinct (map fst fv)"
    using Cons.IH [of "AList.update col (spec_resolve parse lower payload col) acc"] by blast
  have "build_loop parse lower payload (col # cols) acc = Inr fv"
    by (simp add: feature_value_spec fv)
  moreover have "map_of fv = (\<lambda>c. if c \<in> set (col # cols) then Some (spec_resolve parse lower payload c) else map_of acc c)"
    by (rule ext) (simp add: m update_conv')
  moreover have "fst ` set fv = fst ` set acc \<union> set (col # cols)"
    using d by (auto simp: dom_update)
  moreover have "distinct (map fst acc) \<longrightarrow> distinct (map fst fv)"
    using dd by (simp add: distinct_update)
  ultimately show ?case by blast
qed

section \<open>The scorer's loop\<close>

lemma predict_loop_out:
  "predict_loop w x pr preds items result = Inr out \<Longrightarrow>
   out = result @ map (prediction_for w x pr preds) (filter (active pr preds) items)"
proof (induction items arbitrary: result)
  case Nil
  then show ?case by simp
next
  case (Cons il items)
  obtain i lbl where il: "il = (i, lbl)" by (cases il)
  show ?case
  proof (cases "i < length preds")
    case False
    with Cons.prems il show ?thesis by (simp add: index_def)
  next
    case True
    show ?thesis
    proof (cases "triggered (preds ! i) (probability_of pr i)")
      case t: True
      with Cons.prems il True
      have "predict_loop w x pr preds items (result @ [prediction_for w x pr preds il]) = Inr out"
        by (simp add: index_def prediction_for_def Let_def)
      from Cons.IH [OF this] t il show ?thesis by (simp add: active_def)
    next
      case f: False
      with Cons.prems il True have "predict_loop w x pr preds items result = Inr out"
        by (simp add: index_def Let_def)
      from Cons.IH [OF this] f il show ?thesis by (simp add: active_def)
    qed
  qed
qed

lemma predict_loop_total:
  "\<forall>il \<in> set items. fst il < length preds \<Longrightarrow>
   \<exists>out. predict_loop w x pr preds items result = Inr out"
proof (induction items arbitrary: result)
  case Nil
  then show ?case by simp
next
  case (Cons il items)
  obtain i lbl where il: "il = (i, lbl)" by (cases il)
  with Cons.prems have "i < length preds" by simp
  moreover from Cons.prems have "\<forall>il \<in> set items. fst il < length preds" by simp
  ultimately show ?case using Cons.IH il by (simp add: index_def Let_def)
qed

lemma run_prediction_out:
  assumes "run_prediction w x = Inr out"
  shows "\<exists>pr rows preds. predict_proba (model w) x = Inr pr \<and> predict (model w) x = Inr rows \<and>
           index rows 0 = Inr preds \<and>
           out = map (prediction_for w x pr preds)
                   (filter (active pr preds) (enumerate 0 (LABEL_COLS w)))"
proof -
  from assms obtain pr where pr: "predict_proba (model w) x = Inr pr"
    by (auto simp: run_prediction_def split: sum.splits)
  from assms pr obtain rows where rows: "predict (model w) x = Inr rows"
    by (auto simp: run_prediction_def split: sum.splits)
  from assms pr rows obtain preds where preds: "index rows 0 = Inr preds"
    by (auto simp: run_prediction_def split: sum.splits)
  from assms pr rows preds
  have "predict_loop w x pr preds (enumerate 0 (LABEL_COLS w)) [] = Inr out"
    by (simp add: run_prediction_def)
  from predict_loop_out [OF this] pr rows preds show ?thesis by simp
qed

section \<open>The explainer\<close>

lemma index_all_out:
  "index_all xs ns = Inr vs \<Longrightarrow> length vs = length ns \<and> set vs \<subseteq> set xs"
proof (induction ns arbitrary: vs)
  case Nil
  then show ?case by simp
next
  case (Cons n ns)
  then show ?case
    by (cases n) (auto simp: list_index_def index_def split: if_splits sum.splits)
qed

lemma index_all_total:
  "\<forall>n \<in> set ns. n < length xs \<Longrightarrow>
   index_all xs (map IntIndex ns) = Inr (map ((!) xs) ns)"
  by (induction ns) (auto simp: list_index_def index_def)

lemma length_last_two_reversed: "length (last_two_reversed xs) \<le> 2"
  by (simp add: last_two_reversed_def)

lemma last_two_reversed_Nil: "last_two_reversed xs = [] \<longleftrightarrow> xs = []"
  by (cases xs) (simp_all add: last_two_reversed_def)

lemma length_top_idx: "length (top_idx sv) \<le> 2"
  by (cases sv)
    (simp_all add: top_idx_def matrix_top_idx_def tensor_top_idx_def length_last_two_reversed)

lemma explain_bounds:
  "length (explain_and_generate_advice w x) \<le> 2 \<and>
   set (explain_and_generate_advice w x) \<subseteq> set (FEATURE_COLS w)"
proof (cases "shap_top_features w x")
  case (Inl e)
  then show ?thesis
    by (auto simp: explain_and_generate_advice_def dest: in_set_takeD)
next
  case (Inr tf)
  then obtain sv where "index_all (FEATURE_COLS w) (top_idx sv) = Inr tf"
    by (auto simp: shap_top_features_def split: sum.splits)
  from index_all_out [OF this]
  have "length tf = length (top_idx sv)" and "set tf \<subseteq> set (FEATURE_COLS w)" by simp_all
  with Inr length_top_idx [of sv] show ?thesis
    by (simp add: explain_and_generate_advice_def)
qed

lemma argsort_length: "length (argsort v) = length v"
  by (simp add: argsort_def)

lemma argsort_set: "set (argsort v) = {0..<length v}"
  by (simp add: argsort_def)

lemma argsort_distinct: "distinct (argsort v)"
  by (simp add: argsort_def)

lemma argsort_sorted: "sorted (map ((!) v) (argsort v))"
  by (simp add: argsort_def)

lemma top_idx_top2:
  assumes n: "2 \<le> length score" and sc: "score = mean_axis0 (np_abs sv)"
  shows "\<exists>i j. matrix_top_idx sv = [i, j] \<and> i \<noteq> j \<and> i < length score \<and> j < length score \<and>
           score ! j \<le> score ! i \<and> (\<forall>k < length score. k \<noteq> i \<longrightarrow> score ! k \<le> score ! j)"
proof -
  define order where "order = argsort score"
  define m where "m = length score - 2"
  have len: "length order = Suc (Suc m)" using n by (simp add: order_def m_def argsort_length)
  have srt: "sorted (map ((!) score) order)" by (simp add: order_def argsort_sorted)
  have dst: "distinct order" by (simp add: order_def argsort_distinct)
  have st: "set order = {0..<length score}" by (simp add: order_def argsort_set)
  define i where "i = order ! Suc m"
  define j where "j = order ! m"
  have "drop m order = [j, i]"
    using len by (simp add: i_def j_def Cons_nth_drop_Suc [symmetric])
  then have t: "matrix_top_idx sv = [i, j]"
    using len
    by (simp add: matrix_top_idx_def last_two_reversed_def sc [symmetric] order_def [symmetric])
  have ij: "i \<noteq> j" using dst len by (auto simp: i_def j_def nth_eq_iff_index_eq)
  have i: "i < length score" and j: "j < length score"
    using st len nth_mem [of "Suc m" order] nth_mem [of m order] by (auto simp: i_def j_def)
  have le: "score ! j \<le> score ! i"
    using sorted_nth_mono [OF srt, of m "Suc m"] len by (simp add: i_def j_def)
  have rest: "score ! k \<le> score ! j" if k: "k < length score" and ki: "k \<noteq> i" for k
  proof -
    from k st have "k \<in> set order" by simp
    then obtain a where a: "a < length order" "order ! a = k" by (auto simp: in_set_conv_nth)
    with ki have "a \<noteq> Suc m" by (auto simp: i_def)
    with a len have "a \<le> m" by simp
    from sorted_nth_mono [OF srt this] len a show ?thesis by (simp add: j_def)
  qed
  from t ij i j le rest show ?thesis by blast
qed

section \<open>The threshold on doubles\<close>

lemma threshold_bounds: "0 < THRESHOLD" "THRESHOLD < 3 / 10"
  by (simp_all add: THRESHOLD_def)

lemma double_gt_threshold:
  assumes d: "is_double r"
  shows "THRESHOLD < r \<longleftrightarrow> 3 / 10 < r"
proof
  assume "3 / 10 < r"
  with threshold_bounds(2) show "THRESHOLD < r" by linarith
next
  assume t: "THRESHOLD < r"
  with threshold_bounds(1) have pos: "0 < r" by linarith
  with d obtain m k :: nat where m: "m < 2 ^ 53" and k: "k \<le> 2045"
    and r: "r = real (m * 2 ^ k) / 2 ^ 1074"
    by (auto simp: is_double_def)
  have split: "(2::real) ^ 1074 = 2 ^ 54 * 2 ^ 1020"
    by (simp add: power_add [symmetric])
  have th: "THRESHOLD = 5404319552844595 / 2 ^ 54"
    by (simp add: THRESHOLD_def)
  have "5404319552844595 / 2 ^ 54 < real (m * 2 ^ k) / (2 ^ 54 * 2 ^ 1020)"
    using t r th split by simp
  then have "5404319552844595 * 2 ^ 1020 < real (m * 2 ^ k)"
    by (simp add: field_simps del: of_nat_mult of_nat_power)
  then have "real (5404319552844595 * 2 ^ 1020) < real (m * 2 ^ k)"
    by simp
  then have big: "5404319552844595 * 2 ^ 1020 < m * 2 ^ k"
    by (simp only: of_nat_less_iff)
  have k1020: "1020 \<le> k"
  proof (rule ccontr)
    assume "\<not> 1020 \<le> k"
    then have "k \<le> 1019" by simp
    then have "(2::nat) ^ k \<le> 2 ^ 1019" by (intro power_increasing) simp_all
    then have "m * 2 ^ k \<le> 2 ^ 53 * 2 ^ 1019"
      using m by (intro mult_mono) simp_all
    also have "(2::nat) ^ 53 * 2 ^ 1019 = 4503599627370496 * 2 ^ 1020"
      by (simp add: power_add [symmetric])
    also have "\<dots> \<le> 5404319552844595 * 2 ^ 1020"
      by (intro mult_right_mono) simp_all
    finally show False using big by simp
  qed
  define N where "N = m * 2 ^ (k - 1020)"
  have "(2::nat) ^ k = 2 ^ (k - 1020 + 1020)" using k1020 by simp
  also have "\<dots> = 2 ^ (k - 1020) * 2 ^ 1020" by (rule power_add)
  finally have mk: "m * 2 ^ k = N * 2 ^ 1020"
    by (simp only: N_def mult.assoc)
  with big have "5404319552844595 * 2 ^ 1020 < N * (2::nat) ^ 1020" by simp
  then have "5404319552844595 < N" by (simp only: mult_less_cancel2)
  then have N: "5404319552844596 \<le> real N" by simp
  have "r = real N * 2 ^ 1020 / (2 ^ 54 * 2 ^ 1020)"
    by (simp only: r mk split of_nat_mult of_nat_power of_nat_numeral)
  then have rN: "r = real N / 2 ^ 54" by simp
  have "(3::real) / 10 < 5404319552844596 / 2 ^ 54" by simp
  also have "\<dots> \<le> real N / 2 ^ 54" using N by (simp add: divide_right_mono)
  finally show "3 / 10 < r" by (simp add: rN)
qed

lemma is_double_examples: "is_double (3 / 4)" "is_double (1 / 8)"
proof -
  have "(3::real) / 4 = real (3 * 2 ^ 1072) / 2 ^ 1074" by simp
  then show "is_double (3 / 4)"
    unfolding is_double_def by (intro exI [of _ 3] exI [of _ 1072]) simp
  have "(1::real) / 8 = real (1 * 2 ^ 1071) / 2 ^ 1074" by simp
  then show "is_double (1 / 8)"
    unfolding is_double_def by (intro exI [of _ 1] exI [of _ 1071]) simp
qed

section \<open>Claims about the schema resolver\<close>

lemma candidates_schema3:
  "candidates ascii_lower ''temperature_c'' =
     [''temperature_c'', ''temperature_c'', ''temperature'', ''temp'', ''Temperature'']"
  "candidates ascii_lower ''co2_ppm'' = [''co2_ppm'', ''co2_ppm'', ''co2_ppm'', ''co2'', ''CO2'']"
  "candidates ascii_lower ''pm2_5_ugm3'' =
     [''pm2_5_ugm3'', ''pm2_5_ugm3'', ''pm25'', ''pm_25'', ''PM2_5'']"
  by (simp_all add: candidates_def ascii_lower_def ascii_lower_char_def Let_def)

lemma candidates_schema_mixed:
  "candidates ascii_lower ''Temperature_C'' =
     [''Temperature_C'', ''temperature_c'', ''temperature'', ''temp'', ''Temperature'']"
  "candidates ascii_lower ''CO2_PPM'' = [''CO2_PPM'', ''co2_ppm'', ''co2_ppm'', ''co2'', ''CO2'']"
  "candidates ascii_lower ''Overall_AQI'' = [''Overall_AQI'', ''overall_aqi'', ''aqi'', ''AQI'']"
  by (simp_all add: candidates_def ascii_lower_def ascii_lower_char_def Let_def)

lemma build_record3:
  "build_feature_values parse ascii_lower schema3 record3 = Inr features0"
proof -
  have f: "float_of_int 35 = Inr (Finite 35)" "float_of_int 1200 = Inr (Finite 1200)"
    "float_of_int 80 = Inr (Finite 80)"
    using float_of_int_small [of 35] float_of_int_small [of 1200] float_of_int_small [of 80]
    by simp_all
  show ?thesis
    by (simp add: build_feature_values_def schema3_def feature_value_spec spec_resolve_def
        candidates_spec [symmetric] candidates_schema3 record3_def features0_def f)
qed

lemma build_record_mixed:
  "build_feature_values parse ascii_lower schema_mixed record_mixed = Inr features_mixed"
proof -
  have f: "float_of_int 400 = Inr (Finite 400)" "float_of_int 42 = Inr (Finite 42)"
    using float_of_int_small [of 400] float_of_int_small [of 42] by simp_all
  show ?thesis
    by (simp add: build_feature_values_def schema_mixed_def feature_value_spec spec_resolve_def
        candidates_spec [symmetric] candidates_schema_mixed record_mixed_def features_mixed_def f)
qed

lemma feature_row_features0:
  "feature_row features0 schema3 = Inr [Finite 35, Finite 1200, Finite 80]"
  by (simp add: features0_def schema3_def getitem_def)

text \<open>
  Claim C2. For every raw record, \<open>build_feature_values\<close> returns (it never raises) a
  dict with exactly one entry per name of the feature schema. Each value is a float: the
  float of the first candidate key present in the record. A feature none of whose
  candidate keys is in the record, or whose found value fails \<open>float\<close>, gets exactly 0.0.
\<close>

theorem build_feature_values_total:
  "\<exists>fv. build_feature_values parse lower cols payload = Inr fv \<and>
        distinct (map fst fv) \<and> fst ` set fv = set cols \<and>
        (\<forall>col \<in> set cols.
           map_of fv col = Some (spec_resolve parse lower payload col) \<and>
           ((\<forall>key \<in> set (candidates lower col). payload key = None) \<longrightarrow>
              map_of fv col = Some (Finite 0)) \<and>
           (\<forall>key v e. List.find (\<lambda>key. payload key \<noteq> None) (candidates lower col) = Some key \<and>
              payload key = Some v \<and> py_float parse v = Inl e \<longrightarrow>
              map_of fv col = Some (Finite 0)))"
proof -
  obtain fv where fv: "build_loop parse lower payload cols [] = Inr fv"
    and m: "map_of fv = (\<lambda>c. if c \<in> set cols then Some (spec_resolve parse lower payload c) else map_of [] c)"
    and d: "fst ` set fv = fst ` set ([] :: fdict) \<union> set cols"
    and dd: "distinct (map fst ([] :: fdict)) \<longrightarrow> distinct (map fst fv)"
    using build_loop_spec [of parse lower payload cols "[]"] by blast
  have absent: "spec_resolve parse lower payload col = Finite 0"
    if "\<forall>key \<in> set (candidates lower col). payload key = None" for col
  proof -
    from that have "List.find (\<lambda>key. payload key \<noteq> None) (spec_candidates lower col) = None"
      by (simp add: find_None_iff candidates_spec)
    then show ?thesis by (simp add: spec_resolve_def)
  qed
  have fails: "spec_resolve parse lower payload col = Finite 0"
    if "List.find (\<lambda>key. payload key \<noteq> None) (candidates lower col) = Some key"
      "payload key = Some v" "py_float parse v = Inl e" for col key v e
    using that by (simp add: spec_resolve_def candidates_spec)
  show ?thesis
    using fv m d dd absent fails
    by (intro exI [of _ fv]) (auto simp: build_feature_values_def)
qed

text \<open>
  The record \<open>record_bad\<close> has a temperature that is not a number, a null CO2 reading
  and no particulate reading: all three features resolve to 0.0.
\<close>

theorem build_feature_values_total_witness:
  "\<exists>fv. build_feature_values (\<lambda>s. None) ascii_lower schema3 record_bad = Inr fv \<and>
        distinct (map fst fv) \<and> fst ` set fv = set schema3 \<and>
        map_of fv ''temperature_c'' = Some (Finite 0) \<and>
        map_of fv ''co2_ppm'' = Some (Finite 0) \<and>
        map_of fv ''pm2_5_ugm3'' = Some (Finite 0)"
proof -
  let ?present = "\<lambda>key. record_bad key \<noteq> None"
  have none: "\<forall>key \<in> set (candidates ascii_lower ''pm2_5_ugm3''). record_bad key = None"
    by (simp add: candidates_schema3 record_bad_def)
  have t: "List.find ?present (candidates ascii_lower ''temperature_c'') = Some ''temperature''"
    "record_bad ''temperature'' = Some (PStr ''hot'')"
    "py_float (\<lambda>s. None) (PStr ''hot'') = Inl ValueError"
    by (simp_all add: candidates_schema3 record_bad_def)
  have c: "List.find ?present (candidates ascii_lower ''co2_ppm'') = Some ''co2''"
    "record_bad ''co2'' = Some PNone"
    "py_float (\<lambda>s. None) PNone = Inl TypeError"
    by (simp_all add: candidates_schema3 record_bad_def)
  from build_feature_values_total [of "\<lambda>s. None" ascii_lower schema3 record_bad]
  obtain fv where fv: "build_feature_values (\<lambda>s. None) ascii_lower schema3 record_bad = Inr fv"
    "distinct (map fst fv)" "fst ` set fv = set schema3"
    and each: "\<forall>col \<in> set schema3.
           map_of fv col = Some (spec_resolve (\<lambda>s. None) ascii_lower record_bad col) \<and>
           ((\<forall>key \<in> set (candidates ascii_lower col). record_bad key = None) \<longrightarrow>
              map_of fv col = Some (Finite 0)) \<and>
           (\<forall>key v e. List.find ?present (candidates ascii_lower col) = Some key \<and>
              record_bad key = Some v \<and> py_float (\<lambda>s. None) v = Inl e \<longrightarrow>
              map_of fv col = Some (Finite 0))"
    by blast
  have mem: "''temperature_c'' \<in> set schema3" "''co2_ppm'' \<in> set schema3"
    "''pm2_5_ugm3'' \<in> set schema3"
    by (simp_all add: schema3_def)
  from bspec [OF each mem(3)] none have "map_of fv ''pm2_5_ugm3'' = Some (Finite 0)"
    by blast
  moreover from bspec [OF each mem(1)] t have "map_of fv ''temperature_c'' = Some (Finite 0)"
    by blast
  moreover from bspec [OF each mem(2)] c have "map_of fv ''co2_ppm'' = Some (Finite 0)"
    by blast
  ultimately show ?thesis using fv by blast
qed

text \<open>
  Claim C5. With \<open>str.lower\<close> doing on ASCII strings what it does (A to Z become
  a to z), the record {"temperature": 35, "co2_ppm": 1200, "pm25": 80} resolves against
  the schema ["temperature_c", "co2_ppm", "pm2_5_ugm3"] to the vector
  [35.0, 1200.0, 80.0], and the record {"temperature_c": 21.5, "co2": 400, "AQI": 42}
  resolves against the schema ["Temperature_C", "CO2_PPM", "Overall_AQI"] to
  21.5 (found under the lower-cased name), 400.0 and 42.0 (found under aliases, the
  group chosen from the lower-cased name). In general, for every feature name and
  whatever \<open>str.lower\<close> returns for it, the candidate keys are the name, the
  lower-cased name, and then the aliases of the first group, in the order temperature,
  humidity, co2, co, particulate, no2, aqi, whose pattern occurs in the lower-cased name;
  the first candidate key present in the record gives the value.
\<close>

theorem resolver_example_and_priority:
  assumes "lower_on_ascii lower"
  shows "build_feature_values parse lower schema3 record3 = Inr features0 \<and>
   feature_row features0 schema3 = Inr [Finite 35, Finite 1200, Finite 80] \<and>
   build_feature_values parse lower schema_mixed record_mixed = Inr features_mixed \<and>
   candidates lower ''Overall_AQI'' = [''Overall_AQI'', ''overall_aqi'', ''aqi'', ''AQI''] \<and>
   map fst alias_table = [''temp'', ''humid'', ''co2'', ''co'', ''pm'', ''no2'', ''aqi''] \<and>
   candidates lower' col = spec_candidates lower' col \<and>
   spec_candidates lower' col =
     [col, lower' col] @
     (case List.find (\<lambda>(pat, aliases). str_in pat (lower' col)) alias_table of
        None \<Rightarrow> [] | Some (pat, aliases) \<Rightarrow> aliases) \<and>
   feature_value parse lower' payload col = Inr (spec_resolve parse lower' payload col)"
proof -
  have a: "build_feature_values parse lower schema3 record3 = Inr features0"
    by (simp add: build_feature_values_ascii [OF assms is_ascii_schemas(1)] build_record3)
  have b: "build_feature_values parse lower schema_mixed record_mixed = Inr features_mixed"
    by (simp add: build_feature_values_ascii [OF assms is_ascii_schemas(2)] build_record_mixed)
  have "is_ascii ''Overall_AQI''" by (simp add: is_ascii_def)
  from candidates_ascii [OF assms this]
  have c: "candidates lower ''Overall_AQI'' = [''Overall_AQI'', ''overall_aqi'', ''aqi'', ''AQI'']"
    by (simp add: candidates_schema_mixed)
  have d: "map fst alias_table = [''temp'', ''humid'', ''co2'', ''co'', ''pm'', ''no2'', ''aqi'']"
    by (simp add: alias_table_def)
  show ?thesis
    by (intro conjI) (rule a feature_row_features0 b c d candidates_spec feature_value_spec
        spec_candidates_def)+
qed

text \<open>
  With \<open>ascii_lower\<close> for \<open>str.lower\<close>: both records resolve as stated, and the
  candidates of "Overall_AQI" hold its lower-cased form and the aqi aliases.
\<close>

theorem resolver_example_and_priority_witness:
  "lower_on_ascii ascii_lower \<and>
   build_feature_values (\<lambda>s. None) ascii_lower schema3 record3 =
     Inr [(''temperature_c'', Finite 35), (''co2_ppm'', Finite 1200), (''pm2_5_ugm3'', Finite 80)] \<and>
   build_feature_values (\<lambda>s. None) ascii_lower
       [''Temperature_C'', ''CO2_PPM'', ''Overall_AQI'']
       [''temperature_c'' \<mapsto> PFloat (Finite (43 / 2)), ''co2'' \<mapsto> PInt 400, ''AQI'' \<mapsto> PInt 42] =
     Inr [(''Temperature_C'', Finite (43 / 2)), (''CO2_PPM'', Finite 400),
          (''Overall_AQI'', Finite 42)] \<and>
   candidates ascii_lower ''Overall_AQI'' = [''Overall_AQI'', ''overall_aqi'', ''aqi'', ''AQI'']"
proof -
  note t = resolver_example_and_priority [OF lower_on_ascii_ascii_lower,
      of "\<lambda>s. None" ascii_lower "''Overall_AQI''" Map.empty]
  have a: "build_feature_values (\<lambda>s. None) ascii_lower schema3 record3 =
     Inr [(''temperature_c'', Finite 35), (''co2_ppm'', Finite 1200), (''pm2_5_ugm3'', Finite 80)]"
    using t [THEN conjunct1] by (simp add: features0_def)
  have b: "build_feature_values (\<lambda>s. None) ascii_lower
       [''Temperature_C'', ''CO2_PPM'', ''Overall_AQI'']
       [''temperature_c'' \<mapsto> PFloat (Finite (43 / 2)), ''co2'' \<mapsto> PInt 400, ''AQI'' \<mapsto> PInt 42] =
     Inr [(''Temperature_C'', Finite (43 / 2)), (''CO2_PPM'', Finite 400),
          (''Overall_AQI'', Finite 42)]"
    using t [THEN conjunct2, THEN conjunct2, THEN conjunct1]
    by (simp only: schema_mixed_def record_mixed_def features_mixed_def)
  have c: "candidates ascii_lower ''Overall_AQI'' =
      [''Overall_AQI'', ''overall_aqi'', ''aqi'', ''AQI'']"
    by (rule t [THEN conjunct2, THEN conjunct2, THEN conjunct2, THEN conjunct1])
  show ?thesis
    by (intro conjI) (rule lower_on_ascii_ascii_lower a b c)+
qed

section \<open>Claims about the risk scorer\<close>

lemma triggered_iff:
  "triggered pred p \<longleftrightarrow> pred = 1 \<or> (\<exists>f. p = Some f \<and> float_gt f THRESHOLD)"
  by (cases p) (simp_all add: triggered_def)

lemma label_prediction_for [simp]: "label (prediction_for w x pr preds il) = snd il"
  by (simp add: prediction_for_def)

lemma probabilities0:
  "probability_of (ProbaSeq
        [[[Finite (1 / 4), Finite (3 / 4)]],
         [[Finite (1 / 2), Finite (1 / 2)]],
         [[Finite (7 / 8), Finite (1 / 8)]],
         [[Finite 1]]]) i =
     (if i = 0 then Some (Finite (3 / 4)) else if i = 1 then Some (Finite (1 / 2))
      else if i = 2 then Some (Finite (1 / 8)) else None)"
  by (auto simp: probability_of_def index_def nth_Cons split: nat.splits)

text \<open>
  Claim C1. When the model's two calls return and \<open>predict\<close> gives a class for every
  label, \<open>run_prediction\<close> returns a list that has an entry for a label exactly when the
  binary prediction at one of the label's positions is 1, or a probability was
  extracted there and is greater than the threshold 0.3; the entries come in label order.
  With no probability extracted only the predicted flag decides, and (labels being
  distinct) a label whose prediction is not 1 and whose probability is absent or not above
  the threshold is not in the list. The threshold is the double 0.3: for every double it
  is exceeded exactly when the real number 3/10 is.
\<close>

theorem run_prediction_trigger:
  assumes pr: "predict_proba (model w) x = Inr pr"
    and rows: "predict (model w) x = Inr (preds # others)"
    and len: "length (LABEL_COLS w) \<le> length preds"
  shows "\<exists>out. run_prediction w x = Inr out \<and>
    map label out =
      map snd (filter (\<lambda>il. preds ! fst il = 1 \<or>
                 (\<exists>f. probability_of pr (fst il) = Some f \<and> float_gt f THRESHOLD))
               (enumerate 0 (LABEL_COLS w))) \<and>
    (\<forall>L. L \<in> label ` set out \<longleftrightarrow>
       (\<exists>i < length (LABEL_COLS w). LABEL_COLS w ! i = L \<and>
          (preds ! i = 1 \<or> (\<exists>f. probability_of pr i = Some f \<and> float_gt f THRESHOLD)))) \<and>
    (distinct (LABEL_COLS w) \<longrightarrow>
       (\<forall>i < length (LABEL_COLS w).
          preds ! i \<noteq> 1 \<and> (\<forall>f. probability_of pr i = Some f \<longrightarrow> \<not> float_gt f THRESHOLD) \<longrightarrow>
          LABEL_COLS w ! i \<notin> label ` set out)) \<and>
    (\<forall>r. is_double r \<longrightarrow> (float_gt (Finite r) THRESHOLD \<longleftrightarrow> 3 / 10 < r))"
proof -
  let ?items = "enumerate 0 (LABEL_COLS w)"
  let ?trig = "\<lambda>i. preds ! i = 1 \<or> (\<exists>f. probability_of pr i = Some f \<and> float_gt f THRESHOLD)"
  have "\<forall>il \<in> set ?items. fst il < length preds"
    using len by (auto simp: in_set_enumerate_eq)
  from predict_loop_total [OF this]
  obtain out where loop: "predict_loop w x pr preds ?items [] = Inr out" by blast
  have run: "run_prediction w x = Inr out"
    by (simp add: run_prediction_def pr rows index_def loop)
  have act: "active pr preds = (\<lambda>il. ?trig (fst il))"
    by (rule ext) (simp add: active_def triggered_iff)
  from predict_loop_out [OF loop]
  have out: "out = map (prediction_for w x pr preds) (filter (\<lambda>il. ?trig (fst il)) ?items)"
    by (simp add: act)
  have labels: "map label out = map snd (filter (\<lambda>il. ?trig (fst il)) ?items)"
    by (simp add: out comp_def)
  have mem: "L \<in> label ` set out \<longleftrightarrow>
      (\<exists>i < length (LABEL_COLS w). LABEL_COLS w ! i = L \<and> ?trig i)" for L
  proof -
    have "label ` set out = set (map label out)" by simp
    also have "\<dots> = snd ` {il \<in> set ?items. ?trig (fst il)}"
      by (simp only: labels set_map set_filter)
    finally have "L \<in> label ` set out \<longleftrightarrow> (\<exists>il \<in> set ?items. ?trig (fst il) \<and> snd il = L)"
      by auto
    also have "\<dots> \<longleftrightarrow> (\<exists>i < length (LABEL_COLS w). LABEL_COLS w ! i = L \<and> ?trig i)"
      (is "?l \<longleftrightarrow> ?r")
    proof
      assume ?l
      then obtain il where "il \<in> set ?items" "?trig (fst il)" "snd il = L" by blast
      then show ?r by (auto simp: in_set_enumerate_eq)
    next
      assume ?r
      then obtain i where i: "i < length (LABEL_COLS w)" "LABEL_COLS w ! i = L" "?trig i"
        by blast
      then have "(i, L) \<in> set ?items" by (simp add: in_set_enumerate_eq)
      with i show ?l by force
    qed
    finally show ?thesis .
  qed
  have quiet: "LABEL_COLS w ! i \<notin> label ` set out"
    if d: "distinct (LABEL_COLS w)" and i: "i < length (LABEL_COLS w)" and n: "\<not> ?trig i" for i
  proof
    assume "LABEL_COLS w ! i \<in> label ` set out"
    then obtain j where j: "j < length (LABEL_COLS w)" "LABEL_COLS w ! j = LABEL_COLS w ! i" "?trig j"
      unfolding mem by blast
    with d i have "j = i" by (simp add: nth_eq_iff_index_eq)
    with j n show False by blast
  qed
  have dbl: "float_gt (Finite r) THRESHOLD \<longleftrightarrow> 3 / 10 < r" if "is_double r" for r
    using double_gt_threshold [OF that] by simp
  from run labels mem quiet dbl show ?thesis
    by (intro exI [of _ out]) blast
qed

text \<open>
  On \<open>env0\<close> the labels asthma (predicted 1), copd (probability 0.5) and unknown_label
  (predicted 1, no probability) are emitted; resp_inf (predicted 0, probability 0.125)
  is not.
\<close>

theorem run_prediction_trigger_witness:
  "\<exists>out. run_prediction env0 vector0 = Inr out \<and>
     map label out = [''asthma'', ''copd'', ''unknown_label''] \<and>
     ''resp_inf'' \<notin> label ` set out \<and>
     float_gt (Finite (3 / 4)) THRESHOLD \<and> \<not> float_gt (Finite (1 / 8)) THRESHOLD"
proof -
  let ?pr = "ProbaSeq
        [[[Finite (1 / 4), Finite (3 / 4)]],
         [[Finite (1 / 2), Finite (1 / 2)]],
         [[Finite (7 / 8), Finite (1 / 8)]],
         [[Finite 1]]]"
  have a: "predict_proba (model env0) vector0 = Inr ?pr"
    and b: "predict (model env0) vector0 = Inr ([1, 0, 0, 1] # [])"
    and c: "length (LABEL_COLS env0) \<le> length [1, 0, 0, 1 :: int]"
    and d: "distinct (LABEL_COLS env0)"
    by (simp_all add: env0_def clf0_def)
  from run_prediction_trigger [OF a b c]
  obtain out where out: "run_prediction env0 vector0 = Inr out"
    and labels: "map label out =
      map snd (filter (\<lambda>il. [1, 0, 0, 1 :: int] ! fst il = 1 \<or>
                 (\<exists>f. probability_of ?pr (fst il) = Some f \<and> float_gt f THRESHOLD))
               (enumerate 0 (LABEL_COLS env0)))"
    and quiet: "distinct (LABEL_COLS env0) \<longrightarrow>
       (\<forall>i < length (LABEL_COLS env0).
          [1, 0, 0, 1 :: int] ! i \<noteq> 1 \<and>
          (\<forall>f. probability_of ?pr i = Some f \<longrightarrow> \<not> float_gt f THRESHOLD) \<longrightarrow>
          LABEL_COLS env0 ! i \<notin> label ` set out)"
    and dbl: "\<forall>r. is_double r \<longrightarrow> (float_gt (Finite r) THRESHOLD \<longleftrightarrow> 3 / 10 < r)"
    by blast
  have l: "map label out = [''asthma'', ''copd'', ''unknown_label'']"
    unfolding labels by (simp add: env0_def enumerate_eq_zip upt_rec probabilities0 THRESHOLD_def)
  have q: "''resp_inf'' \<notin> label ` set out"
    using quiet d by (auto simp: env0_def probabilities0 THRESHOLD_def dest!: spec [of _ 2])
  have hi: "float_gt (Finite (3 / 4)) THRESHOLD"
    by (rule iffD2 [OF dbl [rule_format, OF is_double_examples(1)]]) simp
  have lo: "\<not> float_gt (Finite (1 / 8)) THRESHOLD"
  proof
    assume "float_gt (Finite (1 / 8)) THRESHOLD"
    from iffD1 [OF dbl [rule_format, OF is_double_examples(2)] this] show False by simp
  qed
  show ?thesis
    by (intro exI [of _ out] conjI) (rule out l q hi lo)+
qed

section \<open>The concrete processes, evaluated\<close>

lemma mean_axis0_single: "mean_axis0 (np_abs [row]) = map abs row"
  by (simp add: np_abs_def)

lemma top_idx_env0: "top_idx (Matrix [[1 / 2, - 2, 1]]) = [IntIndex 1, IntIndex 2]"
  by (simp add: top_idx_def matrix_top_idx_def last_two_reversed_def np_abs_def argsort_def
      upt_rec)

lemma mean_forest: "mean_axis0_3 (map np_abs [[[1 / 2, - 2, 1]], [[- (1 / 2), 2, - 1]]]) = [[1 / 2, 2, 1]]"
  by (simp add: np_abs_def)

lemma top_idx_forest: "top_idx forest_attributions = [ArrayIndex [0, 2, 1]]"
  by (simp add: top_idx_def tensor_top_idx_def forest_attributions_def np_abs_def
      last_two_reversed_def argsort_def upt_rec)

lemma explain_env0: "explain_and_generate_advice env0 x = [''co2_ppm'', ''pm2_5_ugm3'']"
  by (simp add: explain_and_generate_advice_def shap_top_features_def env0_def clf0_def
      index_def list_index_def top_idx_env0 schema3_def)

lemma explain_env_no_shap:
  "explain_and_generate_advice env_no_shap x = [''temperature_c'', ''co2_ppm'']"
  by (simp add: explain_and_generate_advice_def shap_top_features_def env_no_shap_def env0_def
      clf0_def index_def schema3_def)

lemma advice_unknown: "advice_for ''unknown_label'' = []"
  by (simp add: advice_for_def ADVICE_TEMPLATES_def)

lemma run_prediction_env0: "run_prediction env0 vector0 = Inr predictions0"
proof -
  have m: "predict_proba (model env0) vector0 = Inr (ProbaSeq
        [[[Finite (1 / 4), Finite (3 / 4)]],
         [[Finite (1 / 2), Finite (1 / 2)]],
         [[Finite (7 / 8), Finite (1 / 8)]],
         [[Finite 1]]])"
    "predict (model env0) vector0 = Inr [[1, 0, 0, 1]]"
    "LABEL_COLS env0 = [''asthma'', ''copd'', ''resp_inf'', ''unknown_label'']"
    by (simp_all add: env0_def clf0_def)
  show ?thesis
    by (simp add: run_prediction_def m index_def enumerate_eq_zip upt_rec probabilities0
        triggered_def THRESHOLD_def explain_env0 predictions0_def advice_unknown Let_def)
qed

lemma run_prediction_env_no_shap:
  "\<exists>out. run_prediction env_no_shap vector0 = Inr out \<and> out \<noteq> [] \<and>
         (\<forall>p \<in> set out. reason_features p = [''temperature_c'', ''co2_ppm''])"
proof -
  have a: "predict_proba (model env_no_shap) vector0 = Inr (ProbaSeq
        [[[Finite (1 / 4), Finite (3 / 4)]],
         [[Finite (1 / 2), Finite (1 / 2)]],
         [[Finite (7 / 8), Finite (1 / 8)]],
         [[Finite 1]]])"
    and b: "predict (model env_no_shap) vector0 = Inr ([1, 0, 0, 1] # [])"
    and c: "length (LABEL_COLS env_no_shap) \<le> length [1, 0, 0, 1 :: int]"
    and l: "LABEL_COLS env_no_shap = [''asthma'', ''copd'', ''resp_inf'', ''unknown_label'']"
    by (simp_all add: env_no_shap_def env0_def clf0_def)
  have "\<forall>il \<in> set (enumerate 0 (LABEL_COLS env_no_shap)). fst il < length [1, 0, 0, 1 :: int]"
    by (auto simp: in_set_enumerate_eq l)
  from predict_loop_total [OF this]
  obtain out where loop: "predict_loop env_no_shap vector0 (ProbaSeq
        [[[Finite (1 / 4), Finite (3 / 4)]],
         [[Finite (1 / 2), Finite (1 / 2)]],
         [[Finite (7 / 8), Finite (1 / 8)]],
         [[Finite 1]]]) [1, 0, 0, 1] (enumerate 0 (LABEL_COLS env_no_shap)) [] = Inr out"
    by blast
  then have run: "run_prediction env_no_shap vector0 = Inr out"
    by (simp add: run_prediction_def a b index_def)
  from predict_loop_out [OF loop]
  have "out \<noteq> []"
    by (simp add: l enumerate_eq_zip upt_rec active_def triggered_def)
  moreover from run_prediction_out [OF run]
  have "\<forall>p \<in> set out. reason_features p = [''temperature_c'', ''co2_ppm'']"
    by (auto simp: prediction_for_def explain_env_no_shap)
  ultimately show ?thesis using run by (intro exI [of _ out]) simp
qed

section \<open>Claims about advice and explanations\<close>

text \<open>
  Claim C6. The advisory lookup is total: it has a result for every label string. The
  labels asthma, copd, resp_inf, cardio and allergy are the known ones; a known label
  yields its template's advice list, an unknown label yields the empty list (and there is
  no template, hence no title, for it). Every Prediction that \<open>run_prediction\<close> emits
  carries the lookup's result for its label.
\<close>

theorem advice_lookup_never_fails:
  "(lbl \<in> {''asthma'', ''copd'', ''resp_inf'', ''cardio'', ''allergy''} \<longleftrightarrow>
      ADVICE_TEMPLATES lbl \<noteq> None) \<and>
   (\<forall>t. ADVICE_TEMPLATES lbl = Some t \<longrightarrow> advice_for lbl = template_advice t) \<and>
   (ADVICE_TEMPLATES lbl = None \<longrightarrow>
      advice_for lbl = [] \<and> map_option title (ADVICE_TEMPLATES lbl) = None) \<and>
   (\<forall>out. run_prediction w x = Inr out \<longrightarrow> (\<forall>p \<in> set out. advice p = advice_for (label p)))"
proof -
  have known: "lbl \<in> {''asthma'', ''copd'', ''resp_inf'', ''cardio'', ''allergy''} \<longleftrightarrow>
      ADVICE_TEMPLATES lbl \<noteq> None"
    by (simp add: ADVICE_TEMPLATES_def)
  have emitted: "advice p = advice_for (label p)" if "run_prediction w x = Inr out" "p \<in> set out"
    for out p
    using run_prediction_out [OF that(1)] that(2) by (auto simp: prediction_for_def)
  from known emitted show ?thesis by (simp add: advice_for_def)
qed

text \<open>
  The unknown label of \<open>env0\<close> gets the empty advice list, copd gets its two
  sentences, and the predictions of \<open>env0\<close> carry the lookup's results.
\<close>

theorem advice_lookup_never_fails_witness:
  "advice_for ''unknown_label'' = [] \<and>
   advice_for ''copd'' =
     [''Avoid outdoor exposure; use face mask outdoors.'',
      ''Ensure medication adherence; seek medical advice for breathing difficulty.''] \<and>
   map advice predictions0 = map (\<lambda>p. advice_for (label p)) predictions0"
proof -
  note unknown = advice_lookup_never_fails [of "''unknown_label''" env0 vector0]
  note copd = advice_lookup_never_fails [of "''copd''" env0 vector0]
  have n: "ADVICE_TEMPLATES ''unknown_label'' = None"
    using unknown [THEN conjunct1] by simp
  have a: "advice_for ''unknown_label'' = []"
    using unknown [THEN conjunct2, THEN conjunct2, THEN conjunct1] n by simp
  have "ADVICE_TEMPLATES ''copd'' =
     Some \<lparr>title = ''COPD exacerbation risk'',
         template_advice =
           [''Avoid outdoor exposure; use face mask outdoors.'',
            ''Ensure medication adherence; seek medical advice for breathing difficulty.'']\<rparr>"
    by (simp add: ADVICE_TEMPLATES_def)
  with copd [THEN conjunct2, THEN conjunct1]
  have b: "advice_for ''copd'' =
     [''Avoid outdoor exposure; use face mask outdoors.'',
      ''Ensure medication adherence; seek medical advice for breathing difficulty.'']"
    by simp
  have c: "map advice predictions0 = map (\<lambda>p. advice_for (label p)) predictions0"
    using copd [THEN conjunct2, THEN conjunct2, THEN conjunct2, rule_format,
        OF run_prediction_env0]
    by (intro map_ext) simp
  from a b c show ?thesis by (intro conjI)
qed

text \<open>
  Claim C8. The list the explainer returns has at most 2 names, all of them from the
  feature schema, whether it comes from the attributions or from the fallback; so every
  Prediction that \<open>run_prediction\<close> emits has a \<open>reason_features\<close> list of length at
  most 2 drawn from the feature schema.
\<close>

theorem reason_features_bounded:
  "length (explain_and_generate_advice w x) \<le> 2 \<and>
   set (explain_and_generate_advice w x) \<subseteq> set (FEATURE_COLS w) \<and>
   (\<forall>out. run_prediction w x = Inr out \<longrightarrow>
      (\<forall>p \<in> set out. length (reason_features p) \<le> 2 \<and>
                      set (reason_features p) \<subseteq> set (FEATURE_COLS w)))"
proof -
  have "reason_features p = explain_and_generate_advice w x"
    if "run_prediction w x = Inr out" "p \<in> set out" for out p
    using run_prediction_out [OF that(1)] that(2) by (auto simp: prediction_for_def)
  with explain_bounds [of w x] show ?thesis by simp
qed

text \<open>
  On \<open>env0\<close> the attributions give the reasons, on \<open>env_no_shap\<close> the explainer
  raises and the fallback gives them.
\<close>

theorem reason_features_bounded_witness:
  "map reason_features predictions0 =
     [[''co2_ppm'', ''pm2_5_ugm3''], [''co2_ppm'', ''pm2_5_ugm3''], [''co2_ppm'', ''pm2_5_ugm3'']] \<and>
   list_all (\<lambda>p. length (reason_features p) \<le> 2 \<and> set (reason_features p) \<subseteq> set schema3)
     predictions0 \<and>
   (\<exists>out. run_prediction env_no_shap vector0 = Inr out \<and> out \<noteq> [] \<and>
      list_all (\<lambda>p. reason_features p = [''temperature_c'', ''co2_ppm''] \<and>
                 length (reason_features p) \<le> 2 \<and>
                 set (reason_features p) \<subseteq> set schema3) out)"
proof -
  have f: "FEATURE_COLS env0 = schema3" "FEATURE_COLS env_no_shap = schema3"
    by (simp_all add: env0_def env_no_shap_def)
  have a: "map reason_features predictions0 =
     [[''co2_ppm'', ''pm2_5_ugm3''], [''co2_ppm'', ''pm2_5_ugm3''], [''co2_ppm'', ''pm2_5_ugm3'']]"
    by (simp add: predictions0_def)
  have b: "list_all (\<lambda>p. length (reason_features p) \<le> 2 \<and>
               set (reason_features p) \<subseteq> set schema3) predictions0"
    using reason_features_bounded [of env0 vector0] run_prediction_env0
    by (simp add: f list_all_iff)
  obtain out where out: "run_prediction env_no_shap vector0 = Inr out" "out \<noteq> []"
    and rf: "\<forall>p \<in> set out. reason_features p = [''temperature_c'', ''co2_ppm'']"
    using run_prediction_env_no_shap by (elim exE conjE)
  have "list_all (\<lambda>p. reason_features p = [''temperature_c'', ''co2_ppm''] \<and>
                 length (reason_features p) \<le> 2 \<and>
                 set (reason_features p) \<subseteq> set schema3) out"
    using reason_features_bounded [of env_no_shap vector0, THEN conjunct2, THEN conjunct2,
        rule_format, OF out(1)] rf
    by (simp add: f list_all_iff)
  with out have c: "\<exists>out. run_prediction env_no_shap vector0 = Inr out \<and> out \<noteq> [] \<and>
      list_all (\<lambda>p. reason_features p = [''temperature_c'', ''co2_ppm''] \<and>
                 length (reason_features p) \<le> 2 \<and>
                 set (reason_features p) \<subseteq> set schema3) out"
    by (intro exI [of _ out]) simp
  from a b c show ?thesis by (intro conjI)
qed

text \<open>
  Claim C10. The explainer takes the input array and the model, not the label: it asks
  for the attributions of the first estimator only (the other estimators do not change
  its result), so all Predictions of one request carry the same \<open>reason_features\<close>
  list, which is the explainer's result for the request's input.
\<close>

theorem reason_features_identical:
  "(\<forall>out. run_prediction w x = Inr out \<longrightarrow>
      (\<forall>p \<in> set out. \<forall>q \<in> set out.
         reason_features p = reason_features q \<and>
         reason_features p = explain_and_generate_advice w x)) \<and>
   (\<forall>est ests ests'. estimators (model w) = est # ests \<longrightarrow>
      explain_and_generate_advice (w\<lparr>model := (model w)\<lparr>estimators := est # ests'\<rparr>\<rparr>) x =
      explain_and_generate_advice w x)"
proof -
  have same: "reason_features p = explain_and_generate_advice w x"
    if "run_prediction w x = Inr out" "p \<in> set out" for out p
    using run_prediction_out [OF that(1)] that(2) by (auto simp: prediction_for_def)
  have first: "explain_and_generate_advice (w\<lparr>model := (model w)\<lparr>estimators := est # ests'\<rparr>\<rparr>) x =
      explain_and_generate_advice w x"
    if "estimators (model w) = est # ests" for est ests ests'
    using that
    by (auto simp: explain_and_generate_advice_def shap_top_features_def index_def
        split: sum.splits)
  show ?thesis
  proof (intro conjI allI impI ballI)
    fix out p q
    assume r: "run_prediction w x = Inr out" and p: "p \<in> set out" and q: "q \<in> set out"
    show "reason_features p = reason_features q"
      by (simp only: same [OF r p] same [OF r q])
    show "reason_features p = explain_and_generate_advice w x"
      by (rule same [OF r p])
  next
    fix est ests ests'
    assume "estimators (model w) = est # ests"
    then show "explain_and_generate_advice (w\<lparr>model := (model w)\<lparr>estimators := est # ests'\<rparr>\<rparr>) x =
      explain_and_generate_advice w x"
      by (rule first)
  qed
qed

text \<open>
  The three predictions of \<open>env0\<close> carry the same reasons, and replacing the
  estimators after the first leaves the explanation as it is.
\<close>

theorem reason_features_identical_witness:
  "map reason_features predictions0 =
     [explain_and_generate_advice env0 vector0, explain_and_generate_advice env0 vector0,
      explain_and_generate_advice env0 vector0] \<and>
   explain_and_generate_advice (env0\<lparr>model := (model env0)\<lparr>estimators := [0, 7]\<rparr>\<rparr>) vector0 =
     explain_and_generate_advice env0 vector0"
proof -
  note same = reason_features_identical [of env0 vector0, THEN conjunct1, rule_format,
      OF run_prediction_env0]
  note first = reason_features_identical [of env0 vector0, THEN conjunct2, rule_format,
      of 0 "[1, 2, 3]" "[7]"]
  have r: "reason_features p = explain_and_generate_advice env0 vector0"
    if "p \<in> set predictions0" for p
    by (rule conjunct2 [OF same [OF that that]])
  have "map reason_features predictions0 =
     map (\<lambda>p. explain_and_generate_advice env0 vector0) predictions0"
    by (intro map_ext) (simp add: r)
  also have "\<dots> =
     [explain_and_generate_advice env0 vector0, explain_and_generate_advice env0 vector0,
      explain_and_generate_advice env0 vector0]"
    by (simp add: predictions0_def)
  finally have a: "map reason_features predictions0 =
     [explain_and_generate_advice env0 vector0, explain_and_generate_advice env0 vector0,
      explain_and_generate_advice env0 vector0]" .
  have "estimators (model env0) = 0 # [1, 2, 3]" by (simp add: env0_def clf0_def)
  from first [OF this] a show ?thesis by (intro conjI)
qed

text \<open>What the explainer returns, by what the attribution call gives.\<close>

lemma explainer_falls_back:
  "shap_top_features w x = Inl e \<Longrightarrow> explain_and_generate_advice w x = take 2 (FEATURE_COLS w)"
  by (simp add: explain_and_generate_advice_def)

lemma explainer_ranks_matrix:
  assumes e: "estimators (model w) = est # ests"
    and sv: "shap_values w est x = Inr (Matrix sv)"
    and sc: "score = mean_axis0 (np_abs sv)"
    and n: "2 \<le> length score"
    and fits: "length score \<le> length (FEATURE_COLS w)"
  shows "\<exists>i j. explain_and_generate_advice w x = [FEATURE_COLS w ! i, FEATURE_COLS w ! j] \<and>
         i \<noteq> j \<and> i < length score \<and> j < length score \<and> score ! j \<le> score ! i \<and>
         (\<forall>k < length score. k \<noteq> i \<longrightarrow> score ! k \<le> score ! j)"
proof -
  from top_idx_top2 [OF n sc]
  obtain i j where t: "matrix_top_idx sv = [i, j]" and ij: "i \<noteq> j"
    and i: "i < length score" and j: "j < length score"
    and le: "score ! j \<le> score ! i"
    and rest: "\<forall>k < length score. k \<noteq> i \<longrightarrow> score ! k \<le> score ! j"
    by (elim exE conjE)
  from i j fits have "\<forall>n \<in> set (matrix_top_idx sv). n < length (FEATURE_COLS w)"
    by (simp add: t)
  from index_all_total [OF this]
  have "shap_top_features w x = Inr [FEATURE_COLS w ! i, FEATURE_COLS w ! j]"
    by (simp add: shap_top_features_def index_def e sv t top_idx_def)
  then have ex: "explain_and_generate_advice w x = [FEATURE_COLS w ! i, FEATURE_COLS w ! j]"
    by (simp add: explain_and_generate_advice_def)
  show ?thesis
    by (intro exI [of _ i] exI [of _ j] conjI) (rule ex ij i j le rest)+
qed

lemma explainer_tensor_falls_back:
  assumes e: "estimators (model w) = est # ests"
    and sv: "shap_values w est x = Inr (Tensor t)"
    and rows: "mean_axis0_3 (map np_abs t) \<noteq> []"
  shows "shap_top_features w x = Inl TypeError"
    and "explain_and_generate_advice w x = take 2 (FEATURE_COLS w)"
proof -
  from rows have "tensor_top_idx t \<noteq> []"
    by (simp add: tensor_top_idx_def last_two_reversed_Nil)
  then obtain ns rest where "tensor_top_idx t = ns # rest" by (cases "tensor_top_idx t") auto
  then show "shap_top_features w x = Inl TypeError"
    by (simp add: shap_top_features_def index_def e sv top_idx_def list_index_def)
  then show "explain_and_generate_advice w x = take 2 (FEATURE_COLS w)"
    by (rule explainer_falls_back)
qed

lemma explain_env_forest:
  "shap_top_features env_forest x = Inl TypeError"
  "explain_and_generate_advice env_forest x = [''temperature_c'', ''co2_ppm'']"
proof -
  have e: "estimators (model env_forest) = 0 # [1, 2, 3]"
    and sv: "shap_values env_forest 0 x =
      Inr (Tensor [[[1 / 2, - 2, 1]], [[- (1 / 2), 2, - 1]]])"
    and f: "FEATURE_COLS env_forest = schema3"
    by (simp_all add: env_forest_def env0_def clf0_def forest_attributions_def)
  have rows: "mean_axis0_3 (map np_abs [[[1 / 2, - 2, 1]], [[- (1 / 2), 2, - 1]]]) \<noteq> []"
    unfolding mean_forest by simp
  show "shap_top_features env_forest x = Inl TypeError"
    by (rule explainer_tensor_falls_back(1) [OF e sv rows])
  show "explain_and_generate_advice env_forest x = [''temperature_c'', ''co2_ppm'']"
    by (simp add: explainer_tensor_falls_back(2) [OF e sv rows] f schema3_def)
qed

text \<open>
  Claim C4 says: when the attribution computation raises, the explainer returns the
  first 2 schema entries, and when it succeeds it returns the top 2 features by mean
  magnitude of attribution. The first half holds (\<open>env_no_shap\<close>). The second holds
  when the attributions are a matrix (\<open>env0\<close>), and fails for a classifier's
  attributions, which are what the estimators of the trained bundle give: on
  \<open>env_forest\<close> the attribution call returns, the mean magnitudes are 0.5, 2 and 1 as
  on \<open>env0\<close>, so that co2_ppm and pm2_5_ugm3 are the top 2 features, but the loop
  indexes \<open>FEATURE_COLS\<close> with a row of indices, TypeError is raised inside the
  \<open>try\<close>, and the first 2 schema entries come back.
\<close>

theorem explainer_falls_back_on_class_attributions:
  "shap_values env_forest 0 vector0 =
     Inr (Tensor [[[1 / 2, - 2, 1]], [[- (1 / 2), 2, - 1]]]) \<and>
   mean_axis0_3 (map np_abs [[[1 / 2, - 2, 1]], [[- (1 / 2), 2, - 1]]]) = [[1 / 2, 2, 1]] \<and>
   top_idx (Tensor [[[1 / 2, - 2, 1]], [[- (1 / 2), 2, - 1]]]) = [ArrayIndex [0, 2, 1]] \<and>
   shap_top_features env_forest vector0 = Inl TypeError \<and>
   explain_and_generate_advice env_forest vector0 = [''temperature_c'', ''co2_ppm''] \<and>
   shap_values env0 0 vector0 = Inr (Matrix [[1 / 2, - 2, 1]]) \<and>
   mean_axis0 (np_abs [[1 / 2, - 2, 1]]) = [1 / 2, 2, 1] \<and>
   explain_and_generate_advice env0 vector0 = [''co2_ppm'', ''pm2_5_ugm3''] \<and>
   explain_and_generate_advice env_no_shap vector0 = [''temperature_c'', ''co2_ppm'']"
proof -
  have a: "shap_values env_forest 0 vector0 =
     Inr (Tensor [[[1 / 2, - 2, 1]], [[- (1 / 2), 2, - 1]]])"
    by (simp add: env_forest_def forest_attributions_def)
  have b: "top_idx (Tensor [[[1 / 2, - 2, 1]], [[- (1 / 2), 2, - 1]]]) = [ArrayIndex [0, 2, 1]]"
    using top_idx_forest by (simp only: forest_attributions_def)
  have c: "shap_values env0 0 vector0 = Inr (Matrix [[1 / 2, - 2, 1]])"
    by (simp add: env0_def)
  have d: "mean_axis0 (np_abs [[1 / 2, - 2, 1]]) = [1 / 2, 2, 1]"
    by (simp add: mean_axis0_single)
  show ?thesis
    by (intro conjI)
      (rule a mean_forest b explain_env_forest c d explain_env0 explain_env_no_shap)+
qed

section \<open>The ingestion request\<close>

lemma explain_smtp [simp]:
  "explain_and_generate_advice (w\<lparr>smtp_send := s\<rparr>) x = explain_and_generate_advice w x"
  by (simp add: explain_and_generate_advice_def shap_top_features_def cong: sum.case_cong)

lemma predict_loop_smtp [simp]:
  "predict_loop (w\<lparr>smtp_send := s\<rparr>) x pr preds items result =
   predict_loop w x pr preds items result"
  by (induction items arbitrary: result) (auto simp: Let_def split: sum.splits)

lemma run_prediction_smtp [simp]:
  "run_prediction (w\<lparr>smtp_send := s\<rparr>) x = run_prediction w x"
  by (simp add: run_prediction_def cong: sum.case_cong)

lemma ingest_ok:
  assumes "build_feature_values (float_parse w) (str_lower w) (FEATURE_COLS w) payload = Inr fv"
    and "feature_row fv (FEATURE_COLS w) = Inr row"
    and "run_prediction w [row] = Inr preds"
    and "document_set w (fv, preds) = Inr doc"
  shows "ingest_from_device w payload =
     \<lparr>response = OkEnvelope doc preds fv, http_status = 200,
      alert = (if preds \<noteq> [] then
                 Some (''Air Quality Health Risk Alert'', alert_body w preds fv,
                   send_alert_email w ''Air Quality Health Risk Alert'' (alert_body w preds fv) None)
               else None)\<rparr>"
  using assms by (simp add: ingest_from_device_def ingest_steps_def Let_def)

lemma ingest_store_raises:
  assumes "build_feature_values (float_parse w) (str_lower w) (FEATURE_COLS w) payload = Inr fv"
    and "feature_row fv (FEATURE_COLS w) = Inr row"
    and "run_prediction w [row] = Inr preds"
    and "document_set w (fv, preds) = Inl e"
  shows "ingest_from_device w payload =
     \<lparr>response = ErrorEnvelope e, http_status = 500, alert = None\<rparr>"
  using assms by (simp add: ingest_from_device_def ingest_steps_def)

lemma ingest_cases:
  "(\<exists>e. ingest_from_device w payload =
        \<lparr>response = ErrorEnvelope e, http_status = 500, alert = None\<rparr>) \<or>
   (\<exists>doc preds fv. ingest_from_device w payload =
     \<lparr>response = OkEnvelope doc preds fv, http_status = 200,
      alert = (if preds \<noteq> [] then
                 Some (''Air Quality Health Risk Alert'', alert_body w preds fv,
                   send_alert_email w ''Air Quality Health Risk Alert'' (alert_body w preds fv) None)
               else None)\<rparr>)"
  by (auto simp: ingest_from_device_def ingest_steps_def Let_def split: sum.splits)

lemma response_smtp:
  "response (ingest_from_device (w\<lparr>smtp_send := s\<rparr>) payload) =
   response (ingest_from_device w payload)"
  by (auto simp: ingest_from_device_def ingest_steps_def Let_def split: sum.splits)

lemma env_fields:
  "str_lower env0 = ascii_lower" "str_lower env_store_down = ascii_lower"
  "str_lower env_smtp_down = ascii_lower" "str_lower env_quiet = ascii_lower"
  "float_parse env0 = (\<lambda>s. None)" "FEATURE_COLS env0 = schema3"
  "document_set env0 = (\<lambda>d. Inr ''doc1'')"
  "FEATURE_COLS env_store_down = schema3" "float_parse env_store_down = (\<lambda>s. None)"
  "document_set env_store_down = (\<lambda>d. Inl (RuntimeError ''store unavailable''))"
  "FEATURE_COLS env_smtp_down = schema3" "float_parse env_smtp_down = (\<lambda>s. None)"
  "document_set env_smtp_down = (\<lambda>d. Inr ''doc1'')"
  "FEATURE_COLS env_quiet = schema3" "float_parse env_quiet = (\<lambda>s. None)"
  "document_set env_quiet = (\<lambda>d. Inr ''doc1'')"
  by (simp_all add: env0_def env_store_down_def env_smtp_down_def env_quiet_def)

lemma run_prediction_store_down: "run_prediction env_store_down x = run_prediction env0 x"
proof -
  have e: "explain_and_generate_advice env_store_down x = explain_and_generate_advice env0 x"
    by (simp add: explain_and_generate_advice_def shap_top_features_def env_store_down_def
        cong: sum.case_cong)
  have "predict_loop env_store_down x pr preds items result =
        predict_loop env0 x pr preds items result" for pr preds items result
    by (induction items arbitrary: result) (auto simp: Let_def e split: sum.splits)
  then show ?thesis by (simp add: run_prediction_def env_store_down_def cong: sum.case_cong)
qed

lemma run_prediction_smtp_down: "run_prediction env_smtp_down x = run_prediction env0 x"
  by (simp add: env_smtp_down_def)

lemma run_prediction_quiet: "run_prediction env_quiet x = Inr []"
  by (simp add: run_prediction_def env_quiet_def env0_def index_def enumerate_eq_zip upt_rec
      probability_of_def triggered_def Let_def)

lemma ingest_quiet:
  "ingest_from_device env_quiet record3 =
     \<lparr>response = OkEnvelope ''doc1'' [] features0, http_status = 200, alert = None\<rparr>"
proof -
  have "ingest_from_device env_quiet record3 =
     \<lparr>response = OkEnvelope ''doc1'' [] features0, http_status = 200,
      alert = (if ([] :: prediction list) \<noteq> [] then
                 Some (''Air Quality Health Risk Alert'', alert_body env_quiet [] features0,
                   send_alert_email env_quiet ''Air Quality Health Risk Alert''
                     (alert_body env_quiet [] features0) None)
               else None)\<rparr>"
    by (rule ingest_ok [where row = "[Finite 35, Finite 1200, Finite 80]"])
      (simp_all add: env_fields build_record3 feature_row_features0 run_prediction_quiet)
  then show ?thesis by simp
qed

lemma ingest_env0:
  "ingest_from_device env0 record3 =
     \<lparr>response = OkEnvelope ''doc1'' predictions0 features0, http_status = 200,
      alert = Some (''Air Quality Health Risk Alert'', alert_body env0 predictions0 features0,
                   send_alert_email env0 ''Air Quality Health Risk Alert''
                     (alert_body env0 predictions0 features0) None)\<rparr>"
proof -
  have n: "predictions0 \<noteq> []" by (simp add: predictions0_def)
  have "ingest_from_device env0 record3 =
     \<lparr>response = OkEnvelope ''doc1'' predictions0 features0, http_status = 200,
      alert = (if predictions0 \<noteq> [] then
                 Some (''Air Quality Health Risk Alert'', alert_body env0 predictions0 features0,
                   send_alert_email env0 ''Air Quality Health Risk Alert''
                     (alert_body env0 predictions0 features0) None)
               else None)\<rparr>"
    by (rule ingest_ok [where row = "[Finite 35, Finite 1200, Finite 80]"])
      (simp_all add: env_fields build_record3 feature_row_features0
        run_prediction_env0 [unfolded vector0_def])
  with n show ?thesis by simp
qed

lemma send_env0: "send_alert_email env0 subject body None = Sent"
  by (simp add: send_alert_email_def env0_def truthy_def)

section \<open>The format of probabilities\<close>

lemma round_half_even_26:
  assumes "51 / 2 < x" "x < 53 / 2"
  shows "round_half_even x = 26"
proof -
  have "25 \<le> \<lfloor>x\<rfloor>" using assms by (simp add: le_floor_iff)
  moreover have "\<lfloor>x\<rfloor> \<le> 26" using assms by (simp add: floor_le_iff)
  ultimately consider "\<lfloor>x\<rfloor> = 25" | "\<lfloor>x\<rfloor> = 26" by linarith
  then show ?thesis
  proof cases
    case 1
    with assms show ?thesis by (simp add: round_half_even_def Let_def)
  next
    case 2
    with assms show ?thesis by (simp add: round_half_even_def Let_def)
  qed
qed

lemma digits_digit: "n < 10 \<Longrightarrow> digits n = [''0123456789'' ! n]"
  by (simp add: digits.simps)

lemma format_2f_026:
  assumes "255 / 1000 < r" "r < 265 / 1000"
  shows "format_2f (Finite r) = ''0.26''"
proof -
  from assms have "round_half_even (\<bar>r\<bar> * 100) = 26"
    by (intro round_half_even_26) simp_all
  moreover from assms have "\<not> r < 0" by simp
  ultimately show ?thesis by (simp add: format_2f_def digits_digit)
qed

lemma round_half_even_near: "\<bar>real_of_int (round_half_even x) - x\<bar> \<le> 1 / 2"
proof -
  have "real_of_int \<lfloor>x\<rfloor> \<le> x" "x < real_of_int \<lfloor>x\<rfloor> + 1" by linarith+
  then show ?thesis by (auto simp: round_half_even_def Let_def)
qed

lemma round_half_even_nonneg: "0 \<le> x \<Longrightarrow> 0 \<le> round_half_even x"
  by (auto simp: round_half_even_def Let_def)

section \<open>Claims about device ingestion and alerts\<close>

text \<open>
  Claim C3, as stated, fails. On \<open>env_store_down\<close> the prediction computation
  succeeds with three predictions and the store write raises: the response is the error
  envelope with status 500, and it carries no predictions.
\<close>

theorem store_failure_drops_predictions:
  "run_prediction env_store_down vector0 = Inr predictions0 \<and> predictions0 \<noteq> [] \<and>
   document_set env_store_down (features0, predictions0) =
     Inl (RuntimeError ''store unavailable'') \<and>
   ingest_from_device env_store_down record3 =
     \<lparr>response = ErrorEnvelope (RuntimeError ''store unavailable''), http_status = 500,
      alert = None\<rparr>"
proof -
  have r: "run_prediction env_store_down vector0 = Inr predictions0"
    by (simp add: run_prediction_store_down run_prediction_env0)
  have n: "predictions0 \<noteq> []" by (simp add: predictions0_def)
  have d: "document_set env_store_down (features0, predictions0) =
     Inl (RuntimeError ''store unavailable'')"
    by (simp add: env_fields)
  have "ingest_from_device env_store_down record3 =
     \<lparr>response = ErrorEnvelope (RuntimeError ''store unavailable''), http_status = 500,
      alert = None\<rparr>"
    by (rule ingest_store_raises [where fv = features0 and preds = predictions0
          and row = "[Finite 35, Finite 1200, Finite 80]"])
      (simp_all add: env_fields build_record3 feature_row_features0 r [unfolded vector0_def])
  with r n d show ?thesis by (intro conjI)
qed

text \<open>
  Claim C3, amended. When the features and the predictions have been computed and the
  store write raises, the response is the error envelope with the exception's message and
  status 500 (no predictions, no alert); when the store write returns, the response is
  the success envelope with the computed predictions and status 200. Whatever the SMTP
  session does, the response is the same: a notification failure never drops the
  predictions.
\<close>

theorem store_failure_is_error_envelope:
  assumes "build_feature_values (float_parse w) (str_lower w) (FEATURE_COLS w) payload = Inr fv"
    and "feature_row fv (FEATURE_COLS w) = Inr row"
    and "run_prediction w [row] = Inr preds"
  shows "(\<forall>e. document_set w (fv, preds) = Inl e \<longrightarrow>
            ingest_from_device w payload =
              \<lparr>response = ErrorEnvelope e, http_status = 500, alert = None\<rparr>) \<and>
         (\<forall>doc. document_set w (fv, preds) = Inr doc \<longrightarrow>
            response (ingest_from_device w payload) = OkEnvelope doc preds fv \<and>
            http_status (ingest_from_device w payload) = 200) \<and>
         (\<forall>s. response (ingest_from_device (w\<lparr>smtp_send := s\<rparr>) payload) =
              response (ingest_from_device w payload))"
proof (intro conjI allI impI)
  fix e
  assume "document_set w (fv, preds) = Inl e"
  with assms show "ingest_from_device w payload =
      \<lparr>response = ErrorEnvelope e, http_status = 500, alert = None\<rparr>"
    by (rule ingest_store_raises)
next
  fix doc
  assume d: "document_set w (fv, preds) = Inr doc"
  show "response (ingest_from_device w payload) = OkEnvelope doc preds fv"
    by (simp add: ingest_ok [OF assms d])
  show "http_status (ingest_from_device w payload) = 200"
    by (simp add: ingest_ok [OF assms d])
next
  fix s
  show "response (ingest_from_device (w\<lparr>smtp_send := s\<rparr>) payload) =
      response (ingest_from_device w payload)"
    by (rule response_smtp)
qed

text \<open>
  The store is down on \<open>env_store_down\<close>; on \<open>env_smtp_down\<close> the store works and
  the SMTP session raises.
\<close>

theorem store_failure_is_error_envelope_witness:
  "ingest_from_device env_store_down record3 =
     \<lparr>response = ErrorEnvelope (RuntimeError ''store unavailable''), http_status = 500,
      alert = None\<rparr> \<and>
   response (ingest_from_device env_smtp_down record3) = OkEnvelope ''doc1'' predictions0 features0 \<and>
   http_status (ingest_from_device env_smtp_down record3) = 200"
proof -
  have down: "build_feature_values (float_parse env_store_down) (str_lower env_store_down) (FEATURE_COLS env_store_down)
        record3 = Inr features0"
    "feature_row features0 (FEATURE_COLS env_store_down) = Inr [Finite 35, Finite 1200, Finite 80]"
    "run_prediction env_store_down [[Finite 35, Finite 1200, Finite 80]] = Inr predictions0"
    using run_prediction_env0
    by (simp_all add: env_fields build_record3 feature_row_features0 run_prediction_store_down
        vector0_def)
  have smtp: "build_feature_values (float_parse env_smtp_down) (str_lower env_smtp_down) (FEATURE_COLS env_smtp_down)
        record3 = Inr features0"
    "feature_row features0 (FEATURE_COLS env_smtp_down) = Inr [Finite 35, Finite 1200, Finite 80]"
    "run_prediction env_smtp_down [[Finite 35, Finite 1200, Finite 80]] = Inr predictions0"
    using run_prediction_env0
    by (simp_all add: env_fields build_record3 feature_row_features0 run_prediction_smtp_down
        vector0_def)
  have a: "ingest_from_device env_store_down record3 =
     \<lparr>response = ErrorEnvelope (RuntimeError ''store unavailable''), http_status = 500,
      alert = None\<rparr>"
    using store_failure_is_error_envelope [OF down, THEN conjunct1]
    by (simp add: env_fields)
  have b: "response (ingest_from_device env_smtp_down record3) =
        OkEnvelope ''doc1'' predictions0 features0 \<and>
      http_status (ingest_from_device env_smtp_down record3) = 200"
    using store_failure_is_error_envelope [OF smtp, THEN conjunct2, THEN conjunct1]
    by (simp add: env_fields)
  from a b show ?thesis by (intro conjI) simp_all
qed

text \<open>
  Claim C7. A request whose list of active predictions is empty calls
  \<open>send_alert_email\<close> not at all: no body is built and nothing is dispatched. The call
  is made, with the fixed subject and the body composed from the predictions and the
  features, only in a request that succeeded with at least one active prediction; a
  request that ends in the error envelope makes no call either.
\<close>

theorem alert_only_for_active_predictions:
  "(\<forall>doc preds fv. response (ingest_from_device w payload) = OkEnvelope doc preds fv \<longrightarrow>
      (preds = [] \<longrightarrow> alert (ingest_from_device w payload) = None) \<and>
      (preds \<noteq> [] \<longrightarrow>
         alert (ingest_from_device w payload) =
           Some (''Air Quality Health Risk Alert'', alert_body w preds fv,
             send_alert_email w ''Air Quality Health Risk Alert'' (alert_body w preds fv) None))) \<and>
   (\<forall>e. response (ingest_from_device w payload) = ErrorEnvelope e \<longrightarrow>
      alert (ingest_from_device w payload) = None) \<and>
   (\<forall>a. alert (ingest_from_device w payload) = Some a \<longrightarrow>
      (\<exists>doc preds fv. response (ingest_from_device w payload) = OkEnvelope doc preds fv \<and>
         preds \<noteq> []))"
proof -
  from ingest_cases [of w payload]
  consider e where "ingest_from_device w payload =
        \<lparr>response = ErrorEnvelope e, http_status = 500, alert = None\<rparr>"
    | doc preds fv where "ingest_from_device w payload =
     \<lparr>response = OkEnvelope doc preds fv, http_status = 200,
      alert = (if preds \<noteq> [] then
                 Some (''Air Quality Health Risk Alert'', alert_body w preds fv,
                   send_alert_email w ''Air Quality Health Risk Alert'' (alert_body w preds fv) None)
               else None)\<rparr>"
    by (elim disjE exE)
  then show ?thesis
  proof cases
    case 1
    then show ?thesis by simp
  next
    case 2
    then show ?thesis by (cases "preds = []") simp_all
  qed
qed

text \<open>
  On \<open>env_quiet\<close> no label is active and no alert is composed; on \<open>env0\<close> three
  labels are active and the alert is sent.
\<close>

theorem alert_only_for_active_predictions_witness:
  "alert (ingest_from_device env_quiet record3) = None \<and>
   alert (ingest_from_device env0 record3) =
     Some (''Air Quality Health Risk Alert'', alert_body env0 predictions0 features0, Sent)"
proof -
  have q: "response (ingest_from_device env_quiet record3) = OkEnvelope ''doc1'' [] features0"
    by (simp add: ingest_quiet)
  have a: "alert (ingest_from_device env_quiet record3) = None"
    using alert_only_for_active_predictions [of env_quiet record3, THEN conjunct1, rule_format,
        OF q, THEN conjunct1]
    by simp
  have r: "response (ingest_from_device env0 record3) = OkEnvelope ''doc1'' predictions0 features0"
    by (simp add: ingest_env0)
  have n: "predictions0 \<noteq> []" by (simp add: predictions0_def)
  have b: "alert (ingest_from_device env0 record3) =
     Some (''Air Quality Health Risk Alert'', alert_body env0 predictions0 features0, Sent)"
    using alert_only_for_active_predictions [of env0 record3, THEN conjunct1, rule_format,
        OF r, THEN conjunct2, rule_format, OF n]
    by (simp add: send_env0)
  from a b show ?thesis by (intro conjI)
qed

text \<open>
  Claim C9. The alert body has one line per active prediction, of the form
  "- <label> (probability: <value>)", where a present probability is printed in fixed
  point with two decimals (0.2567, and every float between 0.255 and 0.265, as "0.26";
  in general the printed hundredths are within one half of the value's) and an absent
  probability is printed as "N/A".
\<close>

theorem alert_line_format:
  "alert_lines preds =
     map (\<lambda>p. ''- '' @ label p @ '' (probability: '' @
            (case probability p of Some f \<Rightarrow> format_2f f | None \<Rightarrow> ''N/A'') @ '')'') preds \<and>
   alert_body w preds fv =
     ''The air-quality ML model detected potential health risks:'' @ newline @ newline @
     join newline (alert_lines preds) @
     newline @ newline @ ''Features:'' @ newline @
     join newline (map (\<lambda>(k, v). k @ '': '' @ float_str w v) fv) \<and>
   format_2f (Finite (2567 / 10000)) = ''0.26'' \<and>
   (\<forall>r. 255 / 1000 < r \<and> r < 265 / 1000 \<longrightarrow> format_2f (Finite r) = ''0.26'') \<and>
   (\<forall>r. 0 \<le> r \<longrightarrow>
      (\<exists>n. format_2f (Finite r) =
             digits (n div 100) @ ''.'' @ digits (n mod 100 div 10) @ digits (n mod 10) \<and>
           \<bar>real n - r * 100\<bar> \<le> 1 / 2))"
proof (intro conjI allI impI)
  show "alert_lines preds =
     map (\<lambda>p. ''- '' @ label p @ '' (probability: '' @
            (case probability p of Some f \<Rightarrow> format_2f f | None \<Rightarrow> ''N/A'') @ '')'') preds"
    by (simp add: alert_lines_def alert_line_def prob_str_def)
  show "alert_body w preds fv =
     ''The air-quality ML model detected potential health risks:'' @ newline @ newline @
     join newline (alert_lines preds) @
     newline @ newline @ ''Features:'' @ newline @
     join newline (map (\<lambda>(k, v). k @ '': '' @ float_str w v) fv)"
    by (simp add: alert_body_def)
  show "format_2f (Finite (2567 / 10000)) = ''0.26''"
    by (rule format_2f_026) simp_all
next
  fix r :: real
  assume "255 / 1000 < r \<and> r < 265 / 1000"
  then show "format_2f (Finite r) = ''0.26''"
    by (intro format_2f_026) simp_all
next
  fix r :: real
  assume r: "0 \<le> r"
  define n where "n = nat (round_half_even (\<bar>r\<bar> * 100))"
  have "0 \<le> round_half_even (\<bar>r\<bar> * 100)"
    by (rule round_half_even_nonneg) simp
  then have "real n = real_of_int (round_half_even (r * 100))"
    using r by (simp add: n_def)
  with round_half_even_near [of "r * 100"] have "\<bar>real n - r * 100\<bar> \<le> 1 / 2" by simp
  moreover have "format_2f (Finite r) =
      digits (n div 100) @ ''.'' @ digits (n mod 100 div 10) @ digits (n mod 10)"
    using r by (simp add: format_2f_def n_def Let_def)
  ultimately show "\<exists>n. format_2f (Finite r) =
             digits (n div 100) @ ''.'' @ digits (n mod 100 div 10) @ digits (n mod 10) \<and>
           \<bar>real n - r * 100\<bar> \<le> 1 / 2"
    by (intro exI [of _ n] conjI)
qed

text \<open>
  Two lines: one with the probability 0.2567, one without a probability; and 0.75 is
  printed as "0.75".
\<close>

theorem alert_line_format_witness:
  "alert_lines
     [\<lparr>label = ''asthma'', predicted = 1, probability = Some (Finite (2567 / 10000)),
       reason_features = [], advice = []\<rparr>,
      \<lparr>label = ''copd'', predicted = 1, probability = None,
       reason_features = [], advice = []\<rparr>] =
     [''- asthma (probability: 0.26)'', ''- copd (probability: N/A)''] \<and>
   format_2f (Finite (3 / 4)) = ''0.75''"
proof -
  note t = alert_line_format [of
      "[\<lparr>label = ''asthma'', predicted = 1, probability = Some (Finite (2567 / 10000)),
         reason_features = [], advice = []\<rparr>,
        \<lparr>label = ''copd'', predicted = 1, probability = None,
         reason_features = [], advice = []\<rparr>]" env0 features0]
  have h: "(255::real) / 1000 < 2567 / 10000 \<and> (2567::real) / 10000 < 265 / 1000" by simp
  note f = t [THEN conjunct2, THEN conjunct2, THEN conjunct2, THEN conjunct1, rule_format, OF h]
  have a: "alert_lines
     [\<lparr>label = ''asthma'', predicted = 1, probability = Some (Finite (2567 / 10000)),
       reason_features = [], advice = []\<rparr>,
      \<lparr>label = ''copd'', predicted = 1, probability = None,
       reason_features = [], advice = []\<rparr>] =
     [''- asthma (probability: 0.26)'', ''- copd (probability: N/A)'']"
    by (simp add: t [THEN conjunct1] f)
  have "(0::real) \<le> 3 / 4" by simp
  from t [THEN conjunct2, THEN conjunct2, THEN conjunct2, THEN conjunct2, rule_format, OF this]
  obtain n where n: "format_2f (Finite (3 / 4)) =
             digits (n div 100) @ ''.'' @ digits (n mod 100 div 10) @ digits (n mod 10)"
    and near: "\<bar>real n - 3 / 4 * 100\<bar> \<le> 1 / 2"
    by (elim exE conjE)
  from near have "n = 75" by linarith
  with n have b: "format_2f (Finite (3 / 4)) = ''0.75''"
    by (simp add: digits_digit)
  from a b show ?thesis by (intro conjI)
qed

end
